theory Spec2Isabelle
  imports Complex_Main "HOL-Library.AList"
begin

text \<open>
  A model of \<open>caffe2nnir.py\<close>, the script that turns a decoded Caffe network into an
  NNIR graph: the name canonicaliser, the attribute extractor and converter, shape
  inference, and the pass over the layers that skips, aliases, fuses and emits.

  What the model fixes:
  \<^item> Integers are unbounded (\<open>int\<close>). Floats are their real values: \<open>real\<close> has no
    infinity, NaN or rounding, and the packing of blobs into bytes is not modelled.
  \<^item> A tensor shape is a list of integers. \<open>main\<close> hands the dimensions over as the
    strings of the command line; the model starts from their integer values.
  \<^item> A dictionary keeps its keys in insertion order. Python 2 leaves the order of
    \<open>keys()\<close> open: where a property states a whole dictionary it is meant up to that
    order, and the first input of \<open>calculateTensorDims\<close> is whichever key \<open>keys()\<close>
    lists first.
  \<^item> The script mutates dictionaries and lists in place. Each function of the model
    returns what it changed; the one place where a list is shared between two holders
    (the attribute lists of a global pooling layer) is written out in
    \<open>calculateTensorDims\<close>.
  \<^item> Printing and the \<open>verbose\<close> flag are left out.
\<close>

section \<open>Python values and failures\<close>

text \<open>
  Every way the script can stop is a value of \<open>error\<close>: the five \<open>sys.exit(1)\<close> calls
  of the pass, and the Python exceptions its unguarded dictionary, list and arithmetic
  operations raise.
\<close>

datatype error =
    ExitUnsupportedListAttribute
  | ExitUnsupportedAttributeType string
  | ExitUnsupportedOperation string
  | ExitNoInputDimensions string
  | ExitUnknownDimensions string string
  | KeyError
  | IndexError
  | ValueError
  | TypeError
  | ZeroDivisionError

definition bind_err :: "error + 'a \<Rightarrow> ('a \<Rightarrow> error + 'b) \<Rightarrow> error + 'b" where
  "bind_err m f = (case m of Inl e \<Rightarrow> Inl e | Inr x \<Rightarrow> f x)"

text \<open>
  A Python dictionary is an association list with distinct keys: \<open>map_of\<close> reads it,
  \<open>AList.update\<close> is \<open>d[k] = v\<close> (a new key goes to the end), and \<open>keys\<close> lists the
  keys in that order.
\<close>

type_synonym ('k, 'v) dict = "('k \<times> 'v) list"

definition keys :: "('k, 'v) dict \<Rightarrow> 'k list" where
  "keys d = map fst d"

definition dict_update :: "('k, 'v) dict \<Rightarrow> ('k, 'v) dict \<Rightarrow> ('k, 'v) dict" where
  "dict_update d other = fold (\<lambda>(k, v) acc. AList.update k v acc) other d"

definition getitem :: "('k, 'v) dict \<Rightarrow> 'k \<Rightarrow> error + 'v" where
  "getitem d k = (case map_of d k of None \<Rightarrow> Inl KeyError | Some v \<Rightarrow> Inr v)"

definition contains :: "('k, 'v) dict \<Rightarrow> 'k \<Rightarrow> bool" where
  "contains d k = (map_of d k \<noteq> None)"

text \<open>
  A tensor shape is a Python list of integers. Python floats are modelled by their real
  value; \<open>int(v)\<close> of a float truncates towards zero and \<open>float(v)\<close> of an integer is
  that integer.
\<close>

type_synonym shape = "int list"

definition int_of_float :: "real \<Rightarrow> int" where
  "int_of_float r = (if 0 \<le> r then \<lfloor>r\<rfloor> else \<lceil>r\<rceil>)"

section \<open>Name canonicalisation\<close>

text \<open>
  \<open>caffe_name_to_ir_name(name)\<close> is
  \<open>'_'.join(('_'.join(name.split('/')).split('-')))\<close>.
\<close>

fun split_on :: "char \<Rightarrow> string \<Rightarrow> string list" where
  "split_on d [] = [[]]"
| "split_on d (c # cs) =
     (if c = d then [] # split_on d cs
      else (case split_on d cs of [] \<Rightarrow> [[c]] | w # ws \<Rightarrow> (c # w) # ws))"

fun join :: "string \<Rightarrow> string list \<Rightarrow> string" where
  "join s [] = []"
| "join s [w] = w"
| "join s (w # v # ws) = w @ s @ join s (v # ws)"

definition caffe_name_to_ir_name :: "string \<Rightarrow> string" where
  "caffe_name_to_ir_name name =
     join ''_'' (split_on (CHR ''-'') (join ''_'' (split_on (CHR ''/'') name)))"

section \<open>Attribute values and the attribute converter\<close>

text \<open>
  The values an attribute dictionary can hold: an int, a float, a str, a list, or
  something of another type (\<open>ANone\<close>). A list element is an int, a float, or something
  \<open>int()\<close> and \<open>float()\<close> reject (\<open>ENone\<close>).
\<close>

datatype attr_elem = EInt int | EFloat real | ENone

datatype attr_value =
    AInt int
  | AFloat real
  | AStr string
  | AList "attr_elem list"
  | ANone

type_synonym attribute_map = "(string, attr_value) dict"

text \<open>What \<open>IrAttr.set(name, value)\<close> is called with.\<close>

datatype ir_value =
    IrFloat real
  | IrInt int
  | IrStr string
  | IrInts "int list"
  | IrFloats "real list"

type_synonym ir_attr = "(string, ir_value) dict"

fun elem_is_int :: "attr_elem \<Rightarrow> bool" where
  "elem_is_int (EInt i) = True"
| "elem_is_int _ = False"

fun elem_is_float :: "attr_elem \<Rightarrow> bool" where
  "elem_is_float (EFloat r) = True"
| "elem_is_float _ = False"

fun py_int :: "attr_elem \<Rightarrow> error + int" where
  "py_int (EInt i) = Inr i"
| "py_int (EFloat r) = Inr (int_of_float r)"
| "py_int ENone = Inl TypeError"

fun py_float :: "attr_elem \<Rightarrow> error + real" where
  "py_float (EInt i) = Inr (of_int i)"
| "py_float (EFloat r) = Inr r"
| "py_float ENone = Inl TypeError"

text \<open>A list comprehension \<open>[f(v) for v in xs]\<close> whose \<open>f\<close> can raise.\<close>

fun map_err :: "('a \<Rightarrow> error + 'b) \<Rightarrow> 'a list \<Rightarrow> error + 'b list" where
  "map_err f [] = Inr []"
| "map_err f (x # xs) =
     bind_err (f x) (\<lambda>y. bind_err (map_err f xs) (\<lambda>ys. Inr (y # ys)))"

text \<open>The body of the loop of \<open>caffe_attr_to_ir_attr\<close>, for one attribute.\<close>

fun convert_attr :: "string \<Rightarrow> attr_value \<Rightarrow> error + ir_value" where
  "convert_attr nm (AFloat r) = Inr (IrFloat r)"
| "convert_attr nm (AInt i) = Inr (IrInt i)"
| "convert_attr nm (AStr s) = Inr (IrStr s)"
| "convert_attr nm (AList xs) =
     (case xs of
        [] \<Rightarrow> Inl IndexError
      | x # _ \<Rightarrow>
          if elem_is_int x then bind_err (map_err py_int xs) (\<lambda>ys. Inr (IrInts ys))
          else if elem_is_float x then bind_err (map_err py_float xs) (\<lambda>ys. Inr (IrFloats ys))
          else Inl ExitUnsupportedListAttribute)"
| "convert_attr nm ANone = Inl (ExitUnsupportedAttributeType nm)"

fun attr_loop :: "attribute_map \<Rightarrow> ir_attr \<Rightarrow> error + ir_attr" where
  "attr_loop [] attr = Inr attr"
| "attr_loop ((nm, v) # rest) attr =
     bind_err (convert_attr nm v) (\<lambda>w. attr_loop rest (AList.update nm w attr))"

definition caffe_attr_to_ir_attr :: "attribute_map \<Rightarrow> error + ir_attr" where
  "caffe_attr_to_ir_attr attribute_map = attr_loop attribute_map []"

section \<open>Layers of the decoded model\<close>

text \<open>
  The decoded protobuf messages the script reads. An optional scalar the script asks
  \<open>HasField\<close> about is an \<open>option\<close>; a repeated field is a list; every other field
  holds its value or its protobuf default. A raw blob is its list of floats.
\<close>

record convolution_parameter =
  conv_pad_h :: "int option"
  conv_pad_w :: "int option"
  conv_pad :: "int list"
  conv_stride_h :: "int option"
  conv_stride_w :: "int option"
  conv_stride :: "int list"
  conv_kernel_h :: "int option"
  conv_kernel_w :: "int option"
  conv_kernel_size :: "int list"
  conv_num_output :: int
  conv_dilation :: "int list"
  conv_bias_term :: bool
  conv_group :: "int option"

datatype pool_method = PoolMAX | PoolAVE | PoolSTOCHASTIC

record pooling_parameter =
  pool_pad_h :: "int option"
  pool_pad_w :: "int option"
  pool_pad :: int
  pool_stride_h :: "int option"
  pool_stride_w :: "int option"
  pool_stride :: int
  pool_kernel_h :: "int option"
  pool_kernel_w :: "int option"
  pool_kernel_size :: int
  pool :: pool_method
  global_pooling :: bool

record lrn_parameter =
  lrn_local_size :: int
  lrn_alpha :: real
  lrn_beta :: real
  lrn_k :: real

record inner_product_parameter =
  ip_num_output :: int
  ip_bias_term :: bool

record layer_parameter =
  lp_name :: string
  lp_type :: string
  lp_bottom :: "string list"
  lp_top :: "string list"
  lp_blobs :: "real list list"
  convolution_param :: convolution_parameter
  pooling_param :: pooling_parameter
  lrn_param :: lrn_parameter
  batch_norm_eps :: real
  inner_product_param :: inner_product_parameter
  relu_negative_slope :: real

section \<open>The attribute extractor\<close>

text \<open>
  \<open>x if HasField(..) else (int(xs[i]) if len(xs) > i else d)\<close>, the resolution of one
  axis of a convolution's pad, stride or kernel.
\<close>

definition resolve_axis :: "int option \<Rightarrow> int list \<Rightarrow> nat \<Rightarrow> int \<Rightarrow> int" where
  "resolve_axis field xs i d =
     (case field of Some v \<Rightarrow> v | None \<Rightarrow> (if length xs > i then xs ! i else d))"

definition resolve_pool :: "int option \<Rightarrow> int \<Rightarrow> int" where
  "resolve_pool field shared = (case field of Some v \<Rightarrow> v | None \<Rightarrow> shared)"

definition ints :: "int list \<Rightarrow> attr_value" where
  "ints xs = AList (map EInt xs)"

definition extractCaffeAttrInfo :: "layer_parameter \<Rightarrow> attribute_map" where
  "extractCaffeAttrInfo layer_param =
     (if lp_type layer_param = ''Convolution'' \<or> lp_type layer_param = ''Deconvolution'' then
        (let conv = convolution_param layer_param;
             pad_h = resolve_axis (conv_pad_h conv) (conv_pad conv) 0 0;
             pad_w = resolve_axis (conv_pad_w conv) (conv_pad conv) 1 pad_h;
             stride_h = resolve_axis (conv_stride_h conv) (conv_stride conv) 0 1;
             stride_w = resolve_axis (conv_stride_w conv) (conv_stride conv) 1 stride_h;
             kernel_h = resolve_axis (conv_kernel_h conv) (conv_kernel_size conv) 0 0;
             kernel_w = resolve_axis (conv_kernel_w conv) (conv_kernel_size conv) 1 kernel_h;
             dilation_h = resolve_axis None (conv_dilation conv) 0 1;
             dilation_w = resolve_axis None (conv_dilation conv) 1 dilation_h;
             groups = (case conv_group conv of Some g \<Rightarrow> g | None \<Rightarrow> 1)
         in [(''strides'', ints [stride_w, stride_h]),
             (''kernel_shape'', ints [kernel_w, kernel_h]),
             (''group'', AInt groups),
             (''pads'', ints [pad_w, pad_h, pad_w, pad_h]),
             (''dilations'', ints [dilation_w, dilation_h])])
      else if lp_type layer_param = ''Pooling'' then
        (let pooling = pooling_param layer_param;
             pad_h = resolve_pool (pool_pad_h pooling) (pool_pad pooling);
             pad_w = resolve_pool (pool_pad_w pooling) (pool_pad pooling);
             stride_h = resolve_pool (pool_stride_h pooling) (pool_stride pooling);
             stride_w = resolve_pool (pool_stride_w pooling) (pool_stride pooling);
             kernel_h = resolve_pool (pool_kernel_h pooling) (pool_kernel_size pooling);
             kernel_w = resolve_pool (pool_kernel_w pooling) (pool_kernel_size pooling)
         in [(''strides'', ints [stride_w, stride_h]),
             (''kernel_shape'', ints [kernel_w, kernel_h]),
             (''pads'', ints [pad_w, pad_h, pad_w, pad_h]),
             (''dim_round_mode'', AStr ''ceil'')])
      else if lp_type layer_param = ''LRN'' then
        (let lrn = lrn_param layer_param
         in [(''alpha'', AFloat (lrn_alpha lrn)),
             (''beta'', AFloat (lrn_beta lrn)),
             (''size'', AInt (lrn_local_size lrn)),
             (''bias'', AFloat (lrn_k lrn))])
      else if lp_type layer_param = ''BatchNorm'' then
        [(''epsilon'', AFloat (batch_norm_eps layer_param))]
      else if lp_type layer_param = ''InnerProduct'' then
        [(''broadcast'', AInt 1), (''transB'', AInt 1)]
      else if lp_type layer_param = ''ReLU'' then
        [(''alpha'', AFloat (relu_negative_slope layer_param))]
      else [])"

section \<open>Shape inference\<close>

text \<open>
  \<open>calculateTensorDims\<close> returns the dictionary \<open>dimList\<close>, whose keys can only be
  \<open>"weights"\<close>, \<open>"bias"\<close> and \<open>"output"\<close>. For a global pooling layer it also assigns
  into the lists held by \<open>attribute_map\<close>; the caller keeps that same dictionary in the
  layer's record, so the model returns the dictionary as it is after the call.
\<close>

record dim_list =
  dl_weights :: "shape option"
  dl_bias :: "shape option"
  dl_output :: shape

text \<open>\<open>n,c,h,w = d\<close>: anything but four entries raises.\<close>

definition unpack4 :: "shape \<Rightarrow> error + (int \<times> int \<times> int \<times> int)" where
  "unpack4 d = (case d of [n, c, h, w] \<Rightarrow> Inr (n, c, h, w) | _ \<Rightarrow> Inl ValueError)"

text \<open>\<open>input_map[inputs[0]]\<close> with \<open>inputs = input_map.keys()\<close>.\<close>

definition first_input :: "(string, shape) dict \<Rightarrow> error + shape" where
  "first_input input_map =
     (case keys input_map of [] \<Rightarrow> Inl IndexError | k # _ \<Rightarrow> getitem input_map k)"

text \<open>
  \<open>v[i]\<close> read as an integer operand, and \<open>v[i] = z\<close>. The extractor only builds lists
  of ints; an entry of another type stops the model with \<open>TypeError\<close>.
\<close>

definition item :: "attr_value \<Rightarrow> nat \<Rightarrow> error + int" where
  "item v i =
     (case v of
        AList xs \<Rightarrow>
          (if i < length xs then (case xs ! i of EInt z \<Rightarrow> Inr z | _ \<Rightarrow> Inl TypeError)
           else Inl IndexError)
      | _ \<Rightarrow> Inl TypeError)"

definition setitem :: "attr_value \<Rightarrow> nat \<Rightarrow> int \<Rightarrow> error + attr_value" where
  "setitem v i z =
     (case v of
        AList xs \<Rightarrow> (if i < length xs then Inr (AList (xs[i := EInt z])) else Inl IndexError)
      | _ \<Rightarrow> Inl TypeError)"

text \<open>\<open>a // b\<close> on ints, and \<open>int(math.ceil(float(a)/b))\<close>.\<close>

definition floordiv :: "int \<Rightarrow> int \<Rightarrow> error + int" where
  "floordiv a b = (if b = 0 then Inl ZeroDivisionError else Inr (a div b))"

definition ceildiv :: "int \<Rightarrow> int \<Rightarrow> error + int" where
  "ceildiv a b =
     (if b = 0 then Inl ZeroDivisionError else Inr \<lceil>real_of_int a / real_of_int b\<rceil>)"

text \<open>One axis of the convolution: index 0 is the width, index 1 the height.\<close>

definition conv_axis ::
  "int \<Rightarrow> attr_value \<Rightarrow> attr_value \<Rightarrow> attr_value \<Rightarrow> attr_value \<Rightarrow> nat \<Rightarrow> error + int" where
  "conv_axis x pads kernel_shape dilations strides i =
     bind_err (item pads i) (\<lambda>p.
     bind_err (item kernel_shape i) (\<lambda>k.
     bind_err (item dilations i) (\<lambda>d.
     bind_err (item strides i) (\<lambda>s.
     bind_err (floordiv (x + 2 * p - k - (k - 1) * (d - 1)) s) (\<lambda>q. Inr (q + 1))))))"

definition deconv_axis ::
  "int \<Rightarrow> attr_value \<Rightarrow> attr_value \<Rightarrow> attr_value \<Rightarrow> attr_value \<Rightarrow> nat \<Rightarrow> error + int" where
  "deconv_axis x pads kernel_shape dilations strides i =
     bind_err (item strides i) (\<lambda>s.
     bind_err (item dilations i) (\<lambda>d.
     bind_err (item kernel_shape i) (\<lambda>k.
     bind_err (item pads i) (\<lambda>p. Inr (s * (x - 1) + d * (k - 1) + 1 - (2 * p))))))"

definition conv_dims ::
  "bool \<Rightarrow> layer_parameter \<Rightarrow> (string, shape) dict \<Rightarrow> attribute_map \<Rightarrow>
     error + (dim_list \<times> attribute_map)" where
  "conv_dims transposed layer_param input_map attribute_map =
     bind_err (getitem attribute_map ''strides'') (\<lambda>strides.
     bind_err (getitem attribute_map ''pads'') (\<lambda>pads.
     bind_err (getitem attribute_map ''dilations'') (\<lambda>dilations.
     bind_err (getitem attribute_map ''kernel_shape'') (\<lambda>kernel_shape.
     bind_err (first_input input_map) (\<lambda>d.
     bind_err (unpack4 d) (\<lambda>(n, c, h, w).
     bind_err ((if transposed then deconv_axis else conv_axis)
                 w pads kernel_shape dilations strides 0) (\<lambda>out3.
     bind_err ((if transposed then deconv_axis else conv_axis)
                 h pads kernel_shape dilations strides 1) (\<lambda>out2.
     bind_err (item kernel_shape 1) (\<lambda>k1.
     bind_err (item kernel_shape 0) (\<lambda>k0.
       (let num_output = conv_num_output (convolution_param layer_param);
            output_dims = [n, num_output, out2, out3];
            weight_dims = [num_output, c, k1, k0]
        in Inr (\<lparr>dl_weights = Some weight_dims,
                  dl_bias = (if conv_bias_term (convolution_param layer_param)
                             then Some [num_output] else None),
                  dl_output = output_dims\<rparr>, attribute_map))))))))))))"

text \<open>One axis of the pooling, with the later decrement of a window that starts in the padding.\<close>

definition pool_axis :: "int \<Rightarrow> attr_value \<Rightarrow> attr_value \<Rightarrow> attr_value \<Rightarrow> nat \<Rightarrow> error + int" where
  "pool_axis x pads kernel_shape strides i =
     bind_err (item pads i) (\<lambda>p.
     bind_err (item strides i) (\<lambda>s.
     bind_err (item kernel_shape i) (\<lambda>k.
     bind_err (ceildiv (x + 2 * p + s - k) s) Inr)))"

definition pool_clip :: "int \<Rightarrow> int \<Rightarrow> attr_value \<Rightarrow> attr_value \<Rightarrow> nat \<Rightarrow> error + int" where
  "pool_clip out x pads strides i =
     bind_err (item pads i) (\<lambda>p.
       if p > 0 then
         bind_err (item strides i) (\<lambda>s.
         bind_err (item pads i) (\<lambda>p'.
           Inr (if (out - 1) * s \<ge> x + p' then out - 1 else out)))
       else Inr out)"

definition pooling_dims ::
  "layer_parameter \<Rightarrow> (string, shape) dict \<Rightarrow> attribute_map \<Rightarrow>
     error + (dim_list \<times> attribute_map)" where
  "pooling_dims layer_param input_map attribute_map =
     bind_err (getitem attribute_map ''strides'') (\<lambda>strides.
     bind_err (getitem attribute_map ''pads'') (\<lambda>pads.
     bind_err (getitem attribute_map ''kernel_shape'') (\<lambda>kernel_shape.
     bind_err (first_input input_map) (\<lambda>d.
     bind_err (unpack4 d) (\<lambda>(n, c, h, w).
     bind_err
       (if global_pooling (pooling_param layer_param) then
          bind_err (setitem kernel_shape 1 h) (\<lambda>ks1.
          bind_err (setitem ks1 0 w) (\<lambda>ks.
          bind_err (setitem pads 0 0) (\<lambda>pd0.
          bind_err (setitem pd0 1 0) (\<lambda>pd.
          bind_err (setitem strides 0 1) (\<lambda>st0.
          bind_err (setitem st0 1 1) (\<lambda>st. Inr (st, pd, ks)))))))
        else Inr (strides, pads, kernel_shape)) (\<lambda>(strides, pads, kernel_shape).
     bind_err (pool_axis w pads kernel_shape strides 0) (\<lambda>out3.
     bind_err (pool_axis h pads kernel_shape strides 1) (\<lambda>out2.
     bind_err (pool_clip out2 h pads strides 1) (\<lambda>out2.
     bind_err (pool_clip out3 w pads strides 0) (\<lambda>out3.
       Inr (\<lparr>dl_weights = None, dl_bias = None, dl_output = [n, c, out2, out3]\<rparr>,
            AList.update ''kernel_shape'' kernel_shape
              (AList.update ''pads'' pads
                 (AList.update ''strides'' strides attribute_map)))))))))))))"

definition inner_product_dims ::
  "layer_parameter \<Rightarrow> (string, shape) dict \<Rightarrow> attribute_map \<Rightarrow>
     error + (dim_list \<times> attribute_map)" where
  "inner_product_dims layer_param input_map attribute_map =
     bind_err (first_input input_map) (\<lambda>d.
     bind_err (unpack4 d) (\<lambda>(n, c, h, w).
       (let num_output = ip_num_output (inner_product_param layer_param);
            weight_dims = [num_output, c, h, w]
        in Inr (\<lparr>dl_weights = Some weight_dims,
                  dl_bias = (if ip_bias_term (inner_product_param layer_param)
                             then Some [num_output] else None),
                  dl_output = [n, num_output, 1, 1]\<rparr>, attribute_map))))"

text \<open>The loop of the Concat branch: \<open>output_dims[1] += c\<close> over every input.\<close>

fun concat_loop :: "(string, shape) dict \<Rightarrow> string list \<Rightarrow> int \<Rightarrow> error + int" where
  "concat_loop input_map [] acc = Inr acc"
| "concat_loop input_map (k # ks) acc =
     bind_err (getitem input_map k) (\<lambda>d.
     bind_err (unpack4 d) (\<lambda>(n, c, h, w). concat_loop input_map ks (acc + c)))"

definition concat_dims ::
  "(string, shape) dict \<Rightarrow> attribute_map \<Rightarrow> error + (dim_list \<times> attribute_map)" where
  "concat_dims input_map attribute_map =
     bind_err (concat_loop input_map (keys input_map) 0) (\<lambda>channels.
     bind_err (first_input input_map) (\<lambda>d.
     bind_err (unpack4 d) (\<lambda>(n, c, h, w).
       Inr (\<lparr>dl_weights = None, dl_bias = None, dl_output = [n, channels, h, w]\<rparr>,
            attribute_map))))"

definition batch_norm_dims ::
  "layer_parameter \<Rightarrow> (string, shape) dict \<Rightarrow> attribute_map \<Rightarrow>
     error + (dim_list \<times> attribute_map)" where
  "batch_norm_dims layer_param input_map attribute_map =
     bind_err (first_input input_map) (\<lambda>d.
     bind_err (unpack4 d) (\<lambda>(n, c, h, w).
       Inr (\<lparr>dl_weights = (if length (lp_blobs layer_param) > 0 then Some [c] else None),
              dl_bias = (if length (lp_blobs layer_param) > 1 then Some [c] else None),
              dl_output = [n, c, h, w]\<rparr>, attribute_map)))"

definition default_dims ::
  "(string, shape) dict \<Rightarrow> attribute_map \<Rightarrow> error + (dim_list \<times> attribute_map)" where
  "default_dims input_map attribute_map =
     bind_err (first_input input_map) (\<lambda>d.
     bind_err (unpack4 d) (\<lambda>(n, c, h, w).
       Inr (\<lparr>dl_weights = None, dl_bias = None, dl_output = [n, c, h, w]\<rparr>, attribute_map)))"

definition calculateTensorDims ::
  "layer_parameter \<Rightarrow> (string, shape) dict \<Rightarrow> attribute_map \<Rightarrow>
     error + (dim_list \<times> attribute_map)" where
  "calculateTensorDims layer_param input_map attribute_map =
     (if lp_type layer_param = ''Convolution'' then
        conv_dims False layer_param input_map attribute_map
      else if lp_type layer_param = ''Deconvolution'' then
        conv_dims True layer_param input_map attribute_map
      else if lp_type layer_param = ''Pooling'' then
        pooling_dims layer_param input_map attribute_map
      else if lp_type layer_param = ''InnerProduct'' then
        inner_product_dims layer_param input_map attribute_map
      else if lp_type layer_param = ''Concat'' then
        concat_dims input_map attribute_map
      else if lp_type layer_param = ''BatchNorm'' \<or> lp_type layer_param = ''Scale'' then
        batch_norm_dims layer_param input_map attribute_map
      else default_dims input_map attribute_map)"

section \<open>The IR sink\<close>

text \<open>
  \<open>IrGraph\<close>, \<open>IrNode\<close>, \<open>IrTensor\<close> and \<open>IrAttr\<close> belong to the module \<open>nnir\<close>. The
  model keeps what the script hands to them: a tensor and a node are the arguments of
  \<open>setName\<close>/\<open>setInfo\<close> and of \<open>IrNode.set\<close>, and the graph is the log of the calls
  \<open>addInput\<close>, \<open>addOutput\<close>, \<open>addVariable\<close>, \<open>addBinary\<close> and \<open>addNode\<close>, each in
  call order.
\<close>

record ir_tensor =
  tensor_name :: string
  tensor_type :: string
  tensor_shape :: shape

record ir_node =
  node_type :: string
  node_inputs :: "string list"
  node_outputs :: "string list"
  node_attr :: ir_attr

record ir_graph =
  graph_inputs :: "ir_tensor list"
  graph_outputs :: "ir_tensor list"
  variables :: "ir_tensor list"
  binaries :: "(string \<times> real list) list"
  nodes :: "ir_node list"

definition addInput :: "ir_tensor \<Rightarrow> ir_graph \<Rightarrow> ir_graph" where
  "addInput t g = g\<lparr>graph_inputs := graph_inputs g @ [t]\<rparr>"

definition addOutput :: "ir_tensor \<Rightarrow> ir_graph \<Rightarrow> ir_graph" where
  "addOutput t g = g\<lparr>graph_outputs := graph_outputs g @ [t]\<rparr>"

definition addVariable :: "ir_tensor \<Rightarrow> ir_graph \<Rightarrow> ir_graph" where
  "addVariable t g = g\<lparr>variables := variables g @ [t]\<rparr>"

definition addBinary :: "string \<Rightarrow> real list \<Rightarrow> ir_graph \<Rightarrow> ir_graph" where
  "addBinary nm buf g = g\<lparr>binaries := binaries g @ [(nm, buf)]\<rparr>"

definition addNode :: "ir_node \<Rightarrow> ir_graph \<Rightarrow> ir_graph" where
  "addNode n g = g\<lparr>nodes := nodes g @ [n]\<rparr>"

definition caffe_blob_to_ir_tensor :: "string \<Rightarrow> string \<Rightarrow> shape \<Rightarrow> ir_tensor" where
  "caffe_blob_to_ir_tensor blob_name blob_data_type blob_shape =
     \<lparr>tensor_name = caffe_name_to_ir_name blob_name,
      tensor_type = blob_data_type,
      tensor_shape = blob_shape\<rparr>"

section \<open>Layer records and the node builder\<close>

text \<open>
  \<open>layer_info_map\<close>: the keys \<open>weights\<close>, \<open>biases\<close>, \<open>scale_weights\<close> and
  \<open>scale_bias\<close> may be absent.
\<close>

record layer_info =
  layer_name :: string
  layer_type :: string
  attributes :: attribute_map
  inputs :: "(string, shape) dict"
  outputs :: "(string, shape) dict"
  weights :: "(string, shape) dict option"
  biases :: "(string, shape) dict option"
  scale_weights :: "(string, shape) dict option"
  scale_bias :: "(string, shape) dict option"

definition keys_of :: "(string, shape) dict option \<Rightarrow> string list" where
  "keys_of m = (case m of None \<Rightarrow> [] | Some d \<Rightarrow> keys d)"

definition caffe_node_to_ir_node :: "string \<Rightarrow> layer_info \<Rightarrow> error + ir_node" where
  "caffe_node_to_ir_node ltype layer_info_map =
     (let names = keys (inputs layer_info_map)
                  @ keys_of (scale_weights layer_info_map)
                  @ keys_of (scale_bias layer_info_map)
                  @ keys_of (weights layer_info_map)
                  @ keys_of (biases layer_info_map)
      in bind_err (caffe_attr_to_ir_attr (attributes layer_info_map)) (\<lambda>attr.
           Inr \<lparr>node_type = ltype,
                node_inputs = map caffe_name_to_ir_name names,
                node_outputs = map caffe_name_to_ir_name (keys (outputs layer_info_map)),
                node_attr = attr\<rparr>))"

definition extractBinary :: "layer_parameter \<Rightarrow> ir_graph \<Rightarrow> ir_graph" where
  "extractBinary layer_parameter g =
     (let nm = caffe_name_to_ir_name (lp_name layer_parameter);
          blobs = lp_blobs layer_parameter;
          g1 = (if length blobs > 0
                then addBinary (caffe_name_to_ir_name (nm @ ''_w'')) (blobs ! 0) g else g)
      in (if length blobs > 1
          then addBinary (caffe_name_to_ir_name (nm @ ''_b'')) (blobs ! 1) g1 else g1))"

section \<open>The boundary extractors\<close>

record net_parameter =
  net_input :: "string list"
  layer :: "layer_parameter list"

definition is_data_layer :: "string \<Rightarrow> bool" where
  "is_data_layer t = (t = ''Data'' \<or> t = ''Input'' \<or> t = ''ImageData'')"

definition first_of :: "'a list \<Rightarrow> error + 'a" where
  "first_of xs = (case xs of [] \<Rightarrow> Inl IndexError | x # _ \<Rightarrow> Inr x)"

definition extractInput ::
  "net_parameter \<Rightarrow> ir_graph \<Rightarrow> shape \<Rightarrow> error + ((string, shape) dict \<times> ir_graph)" where
  "extractInput net g input_dims =
     bind_err (first_of (layer net)) (\<lambda>first_layer_param.
     bind_err
       (if length (net_input net) \<noteq> 0 then
          Inr (caffe_name_to_ir_name (net_input net ! 0))
        else if is_data_layer (lp_type first_layer_param) then
          (if length (lp_top first_layer_param) = 0
           then Inr (caffe_name_to_ir_name (lp_name first_layer_param))
           else Inr (caffe_name_to_ir_name (lp_top first_layer_param ! 0)))
        else
          (if length (lp_bottom first_layer_param) = 0
           then bind_err (first_of (lp_top first_layer_param))
                  (\<lambda>t. Inr (caffe_name_to_ir_name t))
           else Inr (caffe_name_to_ir_name (lp_bottom first_layer_param ! 0))))
       (\<lambda>input_name.
          Inr ([(input_name, input_dims)],
               addInput (caffe_blob_to_ir_tensor input_name ''F032'' input_dims) g)))"

section \<open>The graph builder\<close>

text \<open>
  The state \<open>extractCaffeNodeInfo\<close> carries from one layer to the next. \<open>inputOutputMap\<close>
  is a dictionary keyed by \<open>0 .. count - 1\<close>; the model keeps it as a list, and \<open>count\<close>
  is its length (the script stores at \<open>count\<close> and increments \<open>count\<close> in adjacent
  statements).
\<close>

record pass_state =
  inputOutputMap :: "layer_info list"
  dropoutLayerMap :: "(string, string) dict"
  splitLayerMap :: "(string, string) dict"
  outputNameAliasMap :: "(string, string) dict"
  inputsMap :: "(string, shape) dict"
  outputsMap :: "(string, shape) dict"
  graph :: ir_graph

definition count :: "pass_state \<Rightarrow> nat" where
  "count st = length (inputOutputMap st)"

definition caffe2ir_op_type :: "(string, string) dict" where
  "caffe2ir_op_type =
     [(''Convolution'', ''conv''),
      (''Deconvolution'', ''conv_transpose''),
      (''BatchNorm'', ''batch_norm''),
      (''InnerProduct'', ''gemm''),
      (''ReLU'', ''relu''),
      (''LRN'', ''lrn''),
      (''Eltwise'', ''sum''),
      (''Concat'', ''concat''),
      (''Softmax'', ''softmax''),
      (''SoftmaxWithLoss'', ''softmax'')]"

text \<open>\<open>if name in d: name = d[name]\<close>.\<close>

definition renamed :: "(string, string) dict \<Rightarrow> string \<Rightarrow> string" where
  "renamed d nm = (if contains d nm then (case map_of d nm of Some v \<Rightarrow> v | None \<Rightarrow> nm) else nm)"

definition dropout_step :: "pass_state \<Rightarrow> layer_parameter \<Rightarrow> error + pass_state" where
  "dropout_step st layer_param =
     bind_err (first_of (lp_bottom layer_param)) (\<lambda>b.
       (let in_name = renamed (outputNameAliasMap st) (caffe_name_to_ir_name b)
        in bind_err (first_of (lp_top layer_param)) (\<lambda>t.
             Inr (st\<lparr>dropoutLayerMap :=
                        AList.update (caffe_name_to_ir_name t) in_name (dropoutLayerMap st)\<rparr>))))"

definition split_step :: "pass_state \<Rightarrow> layer_parameter \<Rightarrow> error + pass_state" where
  "split_step st layer_param =
     bind_err (first_of (lp_bottom layer_param)) (\<lambda>b.
       (let in_name = renamed (outputNameAliasMap st) (caffe_name_to_ir_name b)
        in Inr (st\<lparr>splitLayerMap :=
                      fold (\<lambda>t m. AList.update (caffe_name_to_ir_name t) in_name m)
                        (lp_top layer_param) (splitLayerMap st)\<rparr>)))"

text \<open>The input loop of the first emitted layer (\<open>count == 0\<close>).\<close>

fun first_layer_inputs ::
  "(string, shape) dict \<Rightarrow> string \<Rightarrow> string list \<Rightarrow> (string, shape) dict \<Rightarrow>
     error + (string, shape) dict" where
  "first_layer_inputs inputsInfo lname [] input_info_map = Inr input_info_map"
| "first_layer_inputs inputsInfo lname (x # xs) input_info_map =
     (let in_name = caffe_name_to_ir_name x
      in if contains inputsInfo x then
           bind_err (getitem inputsInfo in_name) (\<lambda>d.
             first_layer_inputs inputsInfo lname xs (AList.update in_name d input_info_map))
         else Inl (ExitNoInputDimensions lname))"

text \<open>
  The input loop of every later layer; \<open>k\<close> is the loop index, and returning the map
  collected so far is the \<open>break\<close> of the Softmax branch.
\<close>

fun resolve_inputs ::
  "pass_state \<Rightarrow> string \<Rightarrow> string \<Rightarrow> nat \<Rightarrow> string list \<Rightarrow> (string, shape) dict \<Rightarrow>
     error + (string, shape) dict" where
  "resolve_inputs st ltype lname k [] input_info_map = Inr input_info_map"
| "resolve_inputs st ltype lname k (x # xs) input_info_map =
     (let prevOutMap = outputs (inputOutputMap st ! (count st - 1));
          input_name = renamed (dropoutLayerMap st)
                         (renamed (splitLayerMap st)
                            (renamed (outputNameAliasMap st) (caffe_name_to_ir_name x)));
          continue = (\<lambda>nm src.
            bind_err (getitem src nm) (\<lambda>d.
              resolve_inputs st ltype lname (Suc k) xs (AList.update nm d input_info_map)))
      in if contains prevOutMap input_name then continue input_name prevOutMap
         else if contains (outputsMap st) input_name then continue input_name (outputsMap st)
         else if contains (inputsMap st) input_name then continue input_name (inputsMap st)
         else if contains (dropoutLayerMap st) input_name then
           bind_err (getitem (dropoutLayerMap st) input_name) (\<lambda>a. continue a (outputsMap st))
         else if contains (splitLayerMap st) input_name then
           bind_err (getitem (splitLayerMap st) input_name) (\<lambda>a. continue a prevOutMap)
         else if (ltype = ''Softmax'' \<or> ltype = ''SoftmaxWithLoss'') \<and> k \<noteq> 0 then
           Inr input_info_map
         else if contains (outputNameAliasMap st) input_name then
           bind_err (getitem (outputNameAliasMap st) input_name) (\<lambda>a. continue a prevOutMap)
         else Inl (ExitUnknownDimensions input_name lname))"

text \<open>\<open>attribute_map["alpha"] != 0\<close>.\<close>

fun nonzero :: "attr_value \<Rightarrow> bool" where
  "nonzero (AInt i) = (i \<noteq> 0)"
| "nonzero (AFloat r) = (r \<noteq> 0)"
| "nonzero _ = True"

text \<open>
  The two blocks \<open>if "weights" in dimList: ... graph.addVariable(...)\<close> and
  \<open>if "bias" in dimList: ...\<close>: the variables \<open><name>_w\<close> and \<open><name>_b\<close>.
\<close>

definition register_variables :: "string \<Rightarrow> dim_list \<Rightarrow> ir_graph \<Rightarrow> ir_graph" where
  "register_variables lname dimList g =
     (let g2 = (case dl_weights dimList of
                  None \<Rightarrow> g
                | Some wd \<Rightarrow>
                    addVariable (caffe_blob_to_ir_tensor (lname @ ''_w'') ''F032'' wd) g)
      in (case dl_bias dimList of
            None \<Rightarrow> g2
          | Some bd \<Rightarrow>
              addVariable (caffe_blob_to_ir_tensor (lname @ ''_b'') ''F032'' bd) g2))"

text \<open>The record \<open>layer_info_map\<close> of a layer that is not fused, as stored at \<open>count\<close>.\<close>

definition new_layer_info ::
  "string \<Rightarrow> string \<Rightarrow> attribute_map \<Rightarrow> (string, shape) dict \<Rightarrow> dim_list \<Rightarrow> layer_info" where
  "new_layer_info lname t attribute_map input_info_map dimList =
     \<lparr>layer_name = lname,
      layer_type = t,
      attributes = attribute_map,
      inputs = input_info_map,
      outputs = [(lname, dl_output dimList)],
      weights = (case dl_weights dimList of
                   None \<Rightarrow> None
                 | Some wd \<Rightarrow> Some [(lname @ ''_w'', wd)]),
      biases = (case dl_bias dimList of
                  None \<Rightarrow> None
                | Some bd \<Rightarrow> Some [(lname @ ''_b'', bd)]),
      scale_weights = None,
      scale_bias = None\<rparr>"

text \<open>
  Fusing a Scale layer into the preceding \<open>batch_norm\<close> record (the branch that ends in
  \<open>continue\<close>): the record is changed in place and a node is built from it.
\<close>

definition fuse_scale :: "pass_state \<Rightarrow> layer_parameter \<Rightarrow> error + pass_state" where
  "fuse_scale st layer_param =
     (let lname = caffe_name_to_ir_name (lp_name layer_param);
          prev_layer_info = inputOutputMap st ! (count st - 1);
          g1 = extractBinary layer_param (graph st)
      in bind_err (calculateTensorDims layer_param (inputs prev_layer_info)
                     (attributes prev_layer_info)) (\<lambda>(dimList, prev_attribute_map).
         (let modified_out_info_map = [(lname, dl_output dimList)];
              info1 = prev_layer_info\<lparr>attributes := prev_attribute_map,
                                       outputs := modified_out_info_map\<rparr>;
              info2 = (case dl_weights dimList of
                         None \<Rightarrow> info1
                       | Some wd \<Rightarrow> info1\<lparr>scale_weights := Some [(lname @ ''_w'', wd)]\<rparr>);
              info3 = (case dl_bias dimList of
                         None \<Rightarrow> info2
                       | Some bd \<Rightarrow> info2\<lparr>scale_bias := Some [(lname @ ''_b'', bd)]\<rparr>);
              g3 = register_variables lname dimList g1
          in bind_err (first_of (lp_top layer_param)) (\<lambda>t.
             (let out0 = caffe_name_to_ir_name t;
                  info4 = info3\<lparr>layer_name := lname\<rparr>
              in bind_err (caffe_node_to_ir_node (layer_type info4) info4) (\<lambda>node.
                   Inr (st\<lparr>inputOutputMap := (inputOutputMap st)[count st - 1 := info4],
                           outputNameAliasMap :=
                             (if lname \<noteq> out0
                              then AList.update out0 lname (outputNameAliasMap st)
                              else outputNameAliasMap st),
                           outputsMap := dict_update (outputsMap st) modified_out_info_map,
                           graph := addNode node g3\<rparr>)))))))"

text \<open>
  The state once a layer's record is stored at \<open>count\<close>: the alias for an output name
  that differs from the layer's name, the running input and output maps, the layer's
  binaries and variables, the record, and \<open>count\<close> one higher.
\<close>

definition record_layer ::
  "pass_state \<Rightarrow> layer_parameter \<Rightarrow> layer_info \<Rightarrow> dim_list \<Rightarrow> pass_state" where
  "record_layer st layer_param layer_info_map dimList =
     (let lname = caffe_name_to_ir_name (lp_name layer_param)
      in st\<lparr>inputOutputMap := inputOutputMap st @ [layer_info_map],
            outputNameAliasMap :=
              (if length (lp_top layer_param) > 0 \<and>
                  caffe_name_to_ir_name lname
                    \<noteq> caffe_name_to_ir_name (lp_top layer_param ! 0)
               then AList.update (caffe_name_to_ir_name (lp_top layer_param ! 0))
                      (caffe_name_to_ir_name lname) (outputNameAliasMap st)
               else outputNameAliasMap st),
            inputsMap := dict_update (inputsMap st) (inputs layer_info_map),
            outputsMap := dict_update (outputsMap st) (outputs layer_info_map),
            graph := register_variables lname dimList
                       (extractBinary layer_param (graph st))\<rparr>)"

text \<open>
  Everything from attribute extraction to emission, for a layer that is not skipped or
  fused. \<open>ltype\<close> is \<open>layer_info_map["layer_type"]\<close>, or \<open>None\<close> when no branch has set
  that key; reading the key after the record is stored then raises.
\<close>

definition operator_step ::
  "string option \<Rightarrow> (string, shape) dict \<Rightarrow> pass_state \<Rightarrow> layer_parameter \<Rightarrow>
     string option \<Rightarrow> error + pass_state" where
  "operator_step next_type inputsInfo st layer_param ltype0 =
     (let lname = caffe_name_to_ir_name (lp_name layer_param);
          attribute_map0 = extractCaffeAttrInfo layer_param
      in bind_err
           (if lp_type layer_param = ''ReLU'' then
              bind_err (getitem attribute_map0 ''alpha'') (\<lambda>a.
                Inr (if nonzero a then Some ''leaky_relu'' else ltype0))
            else Inr ltype0) (\<lambda>ltype.
         bind_err
           (if count st = 0 then
              first_layer_inputs inputsInfo lname (lp_bottom layer_param) []
            else
              resolve_inputs st (lp_type layer_param) lname 0 (lp_bottom layer_param) [])
           (\<lambda>input_info_map.
         bind_err (calculateTensorDims layer_param input_info_map attribute_map0)
           (\<lambda>(dimList, attribute_map).
              (case ltype of
                 None \<Rightarrow> Inl KeyError
               | Some t \<Rightarrow>
                   (let layer_info_map =
                          new_layer_info lname t attribute_map input_info_map dimList;
                        st1 = record_layer st layer_param layer_info_map dimList
                    in if t = ''batch_norm'' \<and> next_type = Some ''Scale'' then Inr st1
                       else bind_err (caffe_node_to_ir_node t layer_info_map) (\<lambda>node.
                              Inr (st1\<lparr>graph := addNode node (graph st1)\<rparr>))))))))"

text \<open>
  One iteration of the loop over the layers. \<open>nlayers\<close> is \<open>len(layers)\<close> and
  \<open>next_type\<close> the type of \<open>layers[i+1]\<close> when \<open>i < len(layers) - 1\<close>.
\<close>

definition node_step ::
  "nat \<Rightarrow> string option \<Rightarrow> (string, shape) dict \<Rightarrow> pass_state \<Rightarrow> layer_parameter \<Rightarrow>
     error + pass_state" where
  "node_step nlayers next_type inputsInfo st layer_param =
     (if lp_type layer_param = ''Data'' \<or> lp_type layer_param = ''ImageData''
         \<or> lp_type layer_param = ''Input'' then Inr st
      else if lp_type layer_param = ''Dropout'' then dropout_step st layer_param
      else if lp_type layer_param = ''Split'' then split_step st layer_param
      else if contains caffe2ir_op_type (lp_type layer_param) then
        operator_step next_type inputsInfo st layer_param
          (map_of caffe2ir_op_type (lp_type layer_param))
      else if lp_type layer_param = ''Pooling'' then
        operator_step next_type inputsInfo st layer_param
          (Some (if pool (pooling_param layer_param) = PoolMAX
                 then ''max_pool'' else ''avg_pool''))
      else if lp_type layer_param = ''Scale'' then
        (if count st > 0 \<and> count st < nlayers then
           (if layer_type (inputOutputMap st ! (count st - 1)) = ''batch_norm'' then
              fuse_scale st layer_param
            else
              operator_step next_type inputsInfo st layer_param
                (Some (if length (lp_blobs layer_param) = 1 then ''mul'' else ''muladd'')))
         else operator_step next_type inputsInfo st layer_param None)
      else Inl (ExitUnsupportedOperation (lp_type layer_param)))"

fun node_loop ::
  "nat \<Rightarrow> (string, shape) dict \<Rightarrow> pass_state \<Rightarrow> layer_parameter list \<Rightarrow>
     error + pass_state" where
  "node_loop nlayers inputsInfo st [] = Inr st"
| "node_loop nlayers inputsInfo st (l # ls) =
     bind_err
       (node_step nlayers (case ls of [] \<Rightarrow> None | x # _ \<Rightarrow> Some (lp_type x))
          inputsInfo st l)
       (\<lambda>st'. node_loop nlayers inputsInfo st' ls)"

text \<open>
  The states the loop passes through, each with the layers still to be processed (the
  list ends where a step stops the pass).
\<close>

fun loop_states ::
  "nat \<Rightarrow> (string, shape) dict \<Rightarrow> pass_state \<Rightarrow> layer_parameter list \<Rightarrow>
     (pass_state \<times> layer_parameter list) list" where
  "loop_states nlayers inputsInfo st [] = [(st, [])]"
| "loop_states nlayers inputsInfo st (l # ls) =
     (st, l # ls) #
     (case node_step nlayers (case ls of [] \<Rightarrow> None | x # _ \<Rightarrow> Some (lp_type x))
             inputsInfo st l of
        Inl e \<Rightarrow> []
      | Inr st' \<Rightarrow> loop_states nlayers inputsInfo st' ls)"

definition initial_state :: "ir_graph \<Rightarrow> pass_state" where
  "initial_state g =
     \<lparr>inputOutputMap = [], dropoutLayerMap = [], splitLayerMap = [],
      outputNameAliasMap = [], inputsMap = [], outputsMap = [], graph = g\<rparr>"

definition extractCaffeNodeInfo ::
  "net_parameter \<Rightarrow> ir_graph \<Rightarrow> (string, shape) dict \<Rightarrow> error + pass_state" where
  "extractCaffeNodeInfo net g inputsInfo =
     node_loop (length (layer net)) inputsInfo (initial_state g) (layer net)"

definition empty_graph :: ir_graph where
  "empty_graph =
     \<lparr>graph_inputs = [], graph_outputs = [], variables = [], binaries = [], nodes = []\<rparr>"

text \<open>\<open>caffe_graph_to_ir_graph\<close> up to the output extraction.\<close>

definition caffe_graph_to_ir_graph :: "net_parameter \<Rightarrow> shape \<Rightarrow> error + pass_state" where
  "caffe_graph_to_ir_graph net input_dims =
     bind_err (extractInput net empty_graph input_dims) (\<lambda>(inputMap, g).
       extractCaffeNodeInfo net g inputMap)"

section \<open>Predicates used in the properties\<close>

text \<open>
  A list element \<open>int()\<close> and \<open>float()\<close> accept; an attribute value whose conversion
  cannot stop (a scalar of a recognised type, or a non-empty list of such elements, of one
  type or mixed); and the values the extractor builds (lists of ints only).
\<close>

fun coercible :: "attr_elem \<Rightarrow> bool" where
  "coercible ENone = False"
| "coercible _ = True"

fun convertible :: "attr_value \<Rightarrow> bool" where
  "convertible (AList xs) = (xs \<noteq> [] \<and> list_all coercible xs)"
| "convertible ANone = False"
| "convertible _ = True"

fun extractor_value :: "attr_value \<Rightarrow> bool" where
  "extractor_value (AList xs) = (xs \<noteq> [] \<and> list_all elem_is_int xs)"
| "extractor_value ANone = False"
| "extractor_value _ = True"

text \<open>
  The strides the extractor resolved are not zero (a zero stride makes the convolution's
  \<open>//\<close> and the pooling's \<open>/\<close> raise).
\<close>

definition nonzero_strides :: "attribute_map \<Rightarrow> bool" where
  "nonzero_strides am =
     (case map_of am ''strides'' of
        Some v \<Rightarrow> item v 0 \<noteq> Inr 0 \<and> item v 1 \<noteq> Inr 0
      | None \<Rightarrow> True)"

section \<open>Example layers\<close>

text \<open>
  A layer with every field at its protobuf default, and the two layers of the
  specification's examples: a 7x7 convolution with stride 2, pad 3 and 64 outputs, and a
  3x3 pooling with stride 2 and pad 1.
\<close>

definition default_layer :: layer_parameter where
  "default_layer =
     \<lparr>lp_name = '''', lp_type = '''', lp_bottom = [], lp_top = [], lp_blobs = [],
      convolution_param =
        \<lparr>conv_pad_h = None, conv_pad_w = None, conv_pad = [],
         conv_stride_h = None, conv_stride_w = None, conv_stride = [],
         conv_kernel_h = None, conv_kernel_w = None, conv_kernel_size = [],
         conv_num_output = 0, conv_dilation = [], conv_bias_term = True, conv_group = None\<rparr>,
      pooling_param =
        \<lparr>pool_pad_h = None, pool_pad_w = None, pool_pad = 0,
         pool_stride_h = None, pool_stride_w = None, pool_stride = 1,
         pool_kernel_h = None, pool_kernel_w = None, pool_kernel_size = 0,
         pool = PoolMAX, global_pooling = False\<rparr>,
      lrn_param = \<lparr>lrn_local_size = 5, lrn_alpha = 1, lrn_beta = 3 / 4, lrn_k = 1\<rparr>,
      batch_norm_eps = 1 / 100000,
      inner_product_param = \<lparr>ip_num_output = 0, ip_bias_term = True\<rparr>,
      relu_negative_slope = 0\<rparr>"

definition conv1 :: layer_parameter where
  "conv1 = default_layer
     \<lparr>lp_name := ''conv1'', lp_type := ''Convolution'', lp_bottom := [''data''],
      lp_top := [''conv1''],
      convolution_param := (convolution_param default_layer)
        \<lparr>conv_pad := [3], conv_stride := [2], conv_kernel_size := [7],
         conv_num_output := 64\<rparr>\<rparr>"

definition pool1 :: layer_parameter where
  "pool1 = default_layer
     \<lparr>lp_name := ''pool1'', lp_type := ''Pooling'', lp_bottom := [''conv1''],
      lp_top := [''pool1''],
      pooling_param := (pooling_param default_layer)
        \<lparr>pool_pad := 1, pool_stride := 2, pool_kernel_size := 3\<rparr>\<rparr>"

section \<open>Predicates about the pass\<close>

text \<open>
  A layer that is neither an input placeholder nor eliminated (Dropout, Split); the
  number of BatchNorm layers immediately followed by a Scale layer; and the condition
  under which a Dropout output name \<open>a\<close> leads to the producer \<open>p\<close>: passed through
  the rename table and the split table, \<open>a\<close> is either unchanged or already \<open>p\<close> (and
  \<open>p\<close> is not itself an alias of an earlier Dropout).
\<close>

definition is_operator :: "string \<Rightarrow> bool" where
  "is_operator t =
     (t \<noteq> ''Data'' \<and> t \<noteq> ''ImageData'' \<and> t \<noteq> ''Input'' \<and> t \<noteq> ''Dropout'' \<and> t \<noteq> ''Split'')"




section \<open>Example models\<close>

text \<open>
  An input placeholder; a Scale layer that is the first operator of its model; a model
  whose input blob is named \<open>data/in\<close>; a BatchNorm layer with its three trained blobs
  followed by a Scale layer with two; a Dropout layer between a convolution and a ReLU;
  and a global average pooling layer.
\<close>

definition data_layer :: layer_parameter where
  "data_layer = default_layer\<lparr>lp_name := ''data'', lp_type := ''Input'', lp_top := [''data'']\<rparr>"

definition scale1 :: layer_parameter where
  "scale1 = default_layer
     \<lparr>lp_name := ''scale1'', lp_type := ''Scale'', lp_bottom := [''data''],
      lp_top := [''scale1''], lp_blobs := [[2, 2, 2]]\<rparr>"

definition scale_first_net :: "real list list \<Rightarrow> net_parameter" where
  "scale_first_net blobs =
     \<lparr>net_input = [], layer = [data_layer, scale1\<lparr>lp_blobs := blobs\<rparr>]\<rparr>"

definition slash_net :: net_parameter where
  "slash_net = \<lparr>net_input = [''data/in''], layer = [conv1\<lparr>lp_bottom := [''data/in'']\<rparr>]\<rparr>"

definition bn1 :: layer_parameter where
  "bn1 = default_layer
     \<lparr>lp_name := ''bn1'', lp_type := ''BatchNorm'', lp_bottom := [''data''],
      lp_top := [''bn1''], lp_blobs := [[0, 0, 0], [1, 1, 1], [1]]\<rparr>"

definition scale2 :: layer_parameter where
  "scale2 = default_layer
     \<lparr>lp_name := ''scale2'', lp_type := ''Scale'', lp_bottom := [''bn1''],
      lp_top := [''scale2''], lp_blobs := [[2, 2, 2], [0, 0, 0]]\<rparr>"

definition bn_scale_net :: net_parameter where
  "bn_scale_net = \<lparr>net_input = [], layer = [data_layer, bn1, scale2]\<rparr>"



definition gpool :: layer_parameter where
  "gpool = default_layer
     \<lparr>lp_name := ''pool5'', lp_type := ''Pooling'', lp_bottom := [''data''],
      lp_top := [''pool5''],
      pooling_param := (pooling_param default_layer)\<lparr>pool := PoolAVE, global_pooling := True\<rparr>\<rparr>"

text \<open>
  The state of the pass after \<open>extractInput\<close> on a model whose input is \<open>data\<close>, and the
  states reached from it by the convolution and by the global pooling layer.
\<close>

definition input_state :: "shape \<Rightarrow> pass_state" where
  "input_state dims =
     initial_state (addInput (caffe_blob_to_ir_tensor ''data'' ''F032'' dims) empty_graph)"



definition gpool_stepped :: pass_state where
  "gpool_stepped =
     projr (node_step 2 None [(''data'', [1, 512, 7, 7])] (input_state [1, 512, 7, 7]) gpool)"

section \<open>Basic facts\<close>

lemma bind_err_simps [simp]:
  "bind_err (Inr x) f = f x"
  "bind_err (Inl e) f = Inl e"
  by (simp_all add: bind_err_def)

lemma bind_err_eq_Inr: "bind_err m f = Inr y \<longleftrightarrow> (\<exists>x. m = Inr x \<and> f x = Inr y)"
  by (cases m) simp_all

lemma split_on_nonempty: "split_on d cs \<noteq> []"
  by (induction cs) (auto split: list.splits)

lemma join_cons_head: "join s ((c # w) # ws) = c # join s (w # ws)"
  by (cases ws) simp_all

lemma join_split_on: "join [r] (split_on d cs) = map (\<lambda>c. if c = d then r else c) cs"
proof (induction cs)
  case Nil
  show ?case by simp
next
  case (Cons c cs)
  obtain w ws where sp: "split_on d cs = w # ws"
    using split_on_nonempty [of d cs] by (cases "split_on d cs") auto
  show ?case
    using Cons sp by (auto simp: join_cons_head)
qed

text \<open>Canonicalising a name replaces every \<open>/\<close> and every \<open>-\<close> by \<open>_\<close>.\<close>

lemma caffe_name_to_ir_name_map:
  "caffe_name_to_ir_name name =
     map (\<lambda>c. if c = CHR ''/'' \<or> c = CHR ''-'' then CHR ''_'' else c) name"
  by (simp add: caffe_name_to_ir_name_def join_split_on)

section \<open>Properties of the attribute converter\<close>

lemma map_err_py_int: "list_all coercible xs \<Longrightarrow> \<exists>ys. map_err py_int xs = Inr ys"
proof (induction xs)
  case Nil
  show ?case by simp
next
  case (Cons x xs)
  then obtain ys where "map_err py_int xs = Inr ys" by auto
  moreover from Cons.prems obtain y where "py_int x = Inr y" by (cases x) auto
  ultimately show ?case by simp
qed

lemma map_err_py_float: "list_all coercible xs \<Longrightarrow> \<exists>ys. map_err py_float xs = Inr ys"
proof (induction xs)
  case Nil
  show ?case by simp
next
  case (Cons x xs)
  then obtain ys where "map_err py_float xs = Inr ys" by auto
  moreover from Cons.prems obtain y where "py_float x = Inr y" by (cases x) auto
  ultimately show ?case by simp
qed

lemma convert_attr_convertible:
  assumes "convertible v"
  shows "\<exists>w. convert_attr nm v = Inr w"
proof (cases v)
  case (AList xs)
  with assms obtain x xs' where xs: "xs = x # xs'" and co: "list_all coercible (x # xs')"
    by (cases xs) auto
  from co obtain ys where ys: "map_err py_int (x # xs') = Inr ys"
    using map_err_py_int by blast
  from co obtain zs where zs: "map_err py_float (x # xs') = Inr zs"
    using map_err_py_float by blast
  from co have "elem_is_int x \<or> elem_is_float x" by (cases x) auto
  then show ?thesis
    unfolding AList xs convert_attr.simps list.case using ys zs by auto
qed (use assms in auto)

lemma attr_loop_convertible:
  "list_all convertible (map snd am) \<Longrightarrow> \<exists>attr. attr_loop am acc = Inr attr"
proof (induction am arbitrary: acc)
  case Nil
  show ?case by simp
next
  case (Cons p am)
  obtain nm v where p: "p = (nm, v)" by (cases p)
  with Cons.prems obtain w where "convert_attr nm v = Inr w"
    using convert_attr_convertible by fastforce
  with Cons p show ?case by simp
qed

lemma attr_loop_unsupported_list:
  "(nm, AList (ENone # xs)) \<in> set am \<Longrightarrow> \<exists>e. attr_loop am acc = Inl e"
proof (induction am arbitrary: acc)
  case Nil
  then show ?case by simp
next
  case (Cons p am)
  obtain k v where p: "p = (k, v)" by (cases p)
  show ?case
  proof (cases "convert_attr k v")
    case (Inl e)
    with p show ?thesis by simp
  next
    case (Inr w)
    with Cons.prems p have "(nm, AList (ENone # xs)) \<in> set am" by auto
    with Cons.IH Inr p show ?thesis by simp
  qed
qed

text \<open>
  Claim C4, as the code has it. The converter looks at the type of a list's first element
  only. An attribute dictionary whose values are scalars of a recognised type and
  non-empty lists of ints and floats, of one type or mixed, is converted without error;
  a dictionary holding a list whose first element is neither an int nor a float is not.
\<close>

theorem list_attribute_checked_by_first_element:
  "(list_all convertible (map snd am) \<longrightarrow> (\<exists>attr. caffe_attr_to_ir_attr am = Inr attr)) \<and>
   ((nm, AList (ENone # xs)) \<in> set am \<longrightarrow> (\<exists>e. caffe_attr_to_ir_attr am = Inl e))"
  unfolding caffe_attr_to_ir_attr_def
  using attr_loop_convertible attr_loop_unsupported_list by blast

theorem list_attribute_checked_by_first_element_witness:
  "list_all convertible (map snd [(''pads'', AList [EInt 1, EFloat (5 / 2), EInt 3])]) \<and>
   (\<exists>attr. caffe_attr_to_ir_attr [(''pads'', AList [EInt 1, EFloat (5 / 2), EInt 3])]
             = Inr attr) \<and>
   (''mode'', AList [ENone, EInt 1])
     \<in> set [(''size'', AInt 3), (''mode'', AList [ENone, EInt 1])] \<and>
   (\<exists>e. caffe_attr_to_ir_attr [(''size'', AInt 3), (''mode'', AList [ENone, EInt 1])]
          = Inl e)"
  using list_attribute_checked_by_first_element
          [of "[(''pads'', AList [EInt 1, EFloat (5 / 2), EInt 3])]" "''x''" "[]"]
        list_attribute_checked_by_first_element
          [of "[(''size'', AInt 3), (''mode'', AList [ENone, EInt 1])]" "''mode''" "[EInt 1]"]
  by simp

text \<open>
  Claim C4, as the specification states it, fails: the list \<open>[1, 2.5]\<close> mixes an int and
  a float and is converted, to the int list \<open>[1, 2]\<close>.
\<close>

theorem mixed_list_is_converted:
  "caffe_attr_to_ir_attr [(''pads'', AList [EInt 1, EFloat (5 / 2)])]
     = Inr [(''pads'', IrInts [1, 2])]"
  by (simp add: caffe_attr_to_ir_attr_def int_of_float_def)

section \<open>Properties of the attribute extractor\<close>

lemma extractor_value_convertible: "extractor_value v \<Longrightarrow> convertible v"
proof (cases v)
  case (AList xs)
  assume "extractor_value v"
  with AList have ne: "xs \<noteq> []" and ai: "list_all elem_is_int xs" by auto
  have "list_all coercible xs"
    using ai by (induction xs) (auto elim: elem_is_int.elims)
  with ne AList show ?thesis by simp
qed auto

lemma extractor_value_ints: "xs \<noteq> [] \<Longrightarrow> extractor_value (ints xs)"
  by (induction xs) (auto simp: ints_def list_all_iff)

lemma extractCaffeAttrInfo_values:
  "list_all extractor_value (map snd (extractCaffeAttrInfo lp))"
  by (simp add: extractCaffeAttrInfo_def Let_def extractor_value_ints)

text \<open>
  Claim C10. Whatever the layer, every value of the dictionary the extractor returns is
  an int, a float, a str or a non-empty list of ints, and the converter returns an
  attribute set for it: reading the first element of a list does not raise, and neither
  of the two \<open>sys.exit\<close> branches is taken.
\<close>

theorem extracted_attributes_always_convert:
  "list_all extractor_value (map snd (extractCaffeAttrInfo lp)) \<and>
   (\<exists>attr. caffe_attr_to_ir_attr (extractCaffeAttrInfo lp) = Inr attr)"
proof
  show vals: "list_all extractor_value (map snd (extractCaffeAttrInfo lp))"
    by (rule extractCaffeAttrInfo_values)
  have "list_all convertible (map snd (extractCaffeAttrInfo lp))"
    using vals by (auto simp: list_all_iff intro: extractor_value_convertible)
  then show "\<exists>attr. caffe_attr_to_ir_attr (extractCaffeAttrInfo lp) = Inr attr"
    unfolding caffe_attr_to_ir_attr_def by (rule attr_loop_convertible)
qed

section \<open>Properties of shape inference\<close>

lemma getitem_simps [simp]:
  "getitem [] k = Inl KeyError"
  "getitem ((k', v) # d) k = (if k' = k then Inr v else getitem d k)"
  by (simp_all add: getitem_def)

lemma map_of_getitem: "map_of d k = Some v \<Longrightarrow> getitem d k = Inr v"
  by (simp add: getitem_def)

text \<open>The ceiling of the float quotient, in integer arithmetic.\<close>

lemma ceildiv_int:
  "ceildiv a b = (if b = 0 then Inl ZeroDivisionError else Inr (- ((- a) div b)))"
  by (simp add: ceildiv_def ceiling_divide_eq_div)

lemma item_ints [simp]:
  "item (ints xs) i = (if i < length xs then Inr (xs ! i) else Inl IndexError)"
  by (simp add: item_def ints_def)

lemma setitem_ints [simp]:
  "setitem (ints xs) i z = (if i < length xs then Inr (ints (xs[i := z])) else Inl IndexError)"
  by (simp add: setitem_def ints_def map_update)

lemma first_input_Cons [simp]: "first_input ((k, d) # rest) = Inr d"
  by (simp add: first_input_def keys_def)

lemma unpack4_4 [simp]: "unpack4 [n, c, h, w] = Inr (n, c, h, w)"
  by (simp add: unpack4_def)

lemma unpack4_Inr: "unpack4 d = Inr (n, c, h, w) \<longleftrightarrow> d = [n, c, h, w]"
  by (auto simp: unpack4_def split: list.splits)

lemma bind_errE:
  assumes "bind_err m f = Inr y"
  obtains x where "m = Inr x" and "f x = Inr y"
  using assms by (cases m) simp_all

lemma length3: "length d = 3 \<Longrightarrow> \<exists>c h w. d = [c, h, w]"
  by (auto simp: length_Suc_conv numeral_3_eq_3)

lemma length4: "length d = 4 \<Longrightarrow> \<exists>n c h w. d = [n, c, h, w]"
  by (auto simp: length_Suc_conv numeral_Bit0 numeral_eq_Suc)

text \<open>
  Claim C2, as the code has it. A pooling layer with a 3x3 kernel, stride 2 and pad 1
  (no global pooling) maps the input shape (1,64,112,112) to (1,64,57,57): the ceiling of
  113/2 is 57, and the window at offset 56 * 2 = 112 is kept because 112 < 112 + 1.
\<close>

theorem pooling_112_gives_57:
  assumes "lp_type lp = ''Pooling''"
    and "\<not> global_pooling (pooling_param lp)"
    and "map_of am ''kernel_shape'' = Some (ints [3, 3])"
    and "map_of am ''strides'' = Some (ints [2, 2])"
    and "map_of am ''pads'' = Some (ints [1, 1, 1, 1])"
  shows "\<exists>dl am'. calculateTensorDims lp ((nm, [1, 64, 112, 112]) # rest) am = Inr (dl, am')
           \<and> dl_output dl = [1, 64, 57, 57]"
  using assms
  by (simp add: calculateTensorDims_def pooling_dims_def pool_axis_def pool_clip_def
        ceildiv_int map_of_getitem)

theorem pooling_112_gives_57_witness:
  "lp_type pool1 = ''Pooling'' \<and> \<not> global_pooling (pooling_param pool1) \<and>
   map_of (extractCaffeAttrInfo pool1) ''kernel_shape'' = Some (ints [3, 3]) \<and>
   map_of (extractCaffeAttrInfo pool1) ''strides'' = Some (ints [2, 2]) \<and>
   map_of (extractCaffeAttrInfo pool1) ''pads'' = Some (ints [1, 1, 1, 1]) \<and>
   (\<exists>dl am'. calculateTensorDims pool1 [(''conv1'', [1, 64, 112, 112])]
                (extractCaffeAttrInfo pool1) = Inr (dl, am')
              \<and> dl_output dl = [1, 64, 57, 57])"
  using pooling_112_gives_57 [of pool1 "extractCaffeAttrInfo pool1" "''conv1''" "[]"]
  by (simp add: pool1_def default_layer_def extractCaffeAttrInfo_def resolve_pool_def)

text \<open>
  Claim C2, as the specification states it, fails: for that layer and that input the
  computed output shape is not (1,64,56,56).
\<close>

theorem pooling_112_is_not_56:
  "map_sum id (\<lambda>r. dl_output (fst r))
     (calculateTensorDims pool1 [(''conv1'', [1, 64, 112, 112])] (extractCaffeAttrInfo pool1))
   \<noteq> Inr [1, 64, 56, 56]"
  by (simp add: pool1_def default_layer_def calculateTensorDims_def extractCaffeAttrInfo_def
        pooling_dims_def resolve_pool_def pool_axis_def pool_clip_def ceildiv_int)

text \<open>
  Claim C3. For a Convolution layer whose attribute dictionary holds the resolved strides,
  pads, dilations and kernel shape (width first), with strides that are not zero, and
  whose first input has shape (N,C,H,W), shape inference returns the output shape
  (N, numOutput, outH, outW) with
  outW = floor((W + 2 padW - kernelW - (kernelW - 1)(dilationW - 1)) / strideW) + 1 and
  the same for the height. The witness is the specification's example: (1,3,224,224)
  with a 7x7 kernel, stride 2, pad 3, dilation 1 and 64 outputs gives (1,64,112,112).
\<close>

theorem convolution_output_shape:
  assumes "lp_type lp = ''Convolution''"
    and "map_of am ''strides'' = Some (ints [strideW, strideH])"
    and "map_of am ''pads'' = Some (ints [padW, padH, padR, padB])"
    and "map_of am ''dilations'' = Some (ints [dilationW, dilationH])"
    and "map_of am ''kernel_shape'' = Some (ints [kernelW, kernelH])"
    and "strideW \<noteq> 0" and "strideH \<noteq> 0"
  shows "\<exists>dl. calculateTensorDims lp ((nm, [N, C, H, W]) # rest) am = Inr (dl, am)
           \<and> dl_output dl =
               [N, conv_num_output (convolution_param lp),
                (H + 2 * padH - kernelH - (kernelH - 1) * (dilationH - 1)) div strideH + 1,
                (W + 2 * padW - kernelW - (kernelW - 1) * (dilationW - 1)) div strideW + 1]"
  using assms
  by (simp add: calculateTensorDims_def conv_dims_def conv_axis_def floordiv_def
        map_of_getitem Let_def)

theorem convolution_output_shape_witness:
  "lp_type conv1 = ''Convolution'' \<and>
   map_of (extractCaffeAttrInfo conv1) ''strides'' = Some (ints [2, 2]) \<and>
   map_of (extractCaffeAttrInfo conv1) ''pads'' = Some (ints [3, 3, 3, 3]) \<and>
   map_of (extractCaffeAttrInfo conv1) ''dilations'' = Some (ints [1, 1]) \<and>
   map_of (extractCaffeAttrInfo conv1) ''kernel_shape'' = Some (ints [7, 7]) \<and>
   (2::int) \<noteq> 0 \<and>
   (\<exists>dl. calculateTensorDims conv1 [(''data'', [1, 3, 224, 224])] (extractCaffeAttrInfo conv1)
            = Inr (dl, extractCaffeAttrInfo conv1)
          \<and> dl_output dl = [1, 64, 112, 112])"
  using convolution_output_shape
          [of conv1 "extractCaffeAttrInfo conv1" 2 2 3 3 3 3 1 1 7 7 "''data''" 1 3 224 224 "[]"]
  by (simp add: conv1_def default_layer_def extractCaffeAttrInfo_def resolve_axis_def)

subsection \<open>The batch dimension\<close>

lemma conv_dims_batch:
  "conv_dims t lp ((nm, n # d) # rest) am = Inr (dl, am') \<Longrightarrow>
     hd (dl_output dl) = n \<and> length (dl_output dl) = 4"
  unfolding conv_dims_def
  apply (elim bind_errE)
  apply (clarsimp simp: unpack4_Inr Let_def)
  apply (elim bind_errE)
  apply clarsimp
  done

lemma pooling_dims_batch:
  "pooling_dims lp ((nm, n # d) # rest) am = Inr (dl, am') \<Longrightarrow>
     hd (dl_output dl) = n \<and> length (dl_output dl) = 4"
  by (clarsimp simp: pooling_dims_def bind_err_eq_Inr unpack4_Inr)

lemma inner_product_dims_batch:
  "inner_product_dims lp ((nm, n # d) # rest) am = Inr (dl, am') \<Longrightarrow>
     hd (dl_output dl) = n \<and> length (dl_output dl) = 4"
  by (clarsimp simp: inner_product_dims_def bind_err_eq_Inr unpack4_Inr Let_def)

lemma concat_dims_batch:
  "concat_dims ((nm, n # d) # rest) am = Inr (dl, am') \<Longrightarrow>
     hd (dl_output dl) = n \<and> length (dl_output dl) = 4"
  by (clarsimp simp: concat_dims_def bind_err_eq_Inr unpack4_Inr)

lemma batch_norm_dims_batch:
  "batch_norm_dims lp ((nm, n # d) # rest) am = Inr (dl, am') \<Longrightarrow>
     hd (dl_output dl) = n \<and> length (dl_output dl) = 4"
  by (clarsimp simp: batch_norm_dims_def bind_err_eq_Inr unpack4_Inr)

lemma default_dims_batch:
  "default_dims ((nm, n # d) # rest) am = Inr (dl, am') \<Longrightarrow>
     hd (dl_output dl) = n \<and> length (dl_output dl) = 4"
  by (clarsimp simp: default_dims_def bind_err_eq_Inr unpack4_Inr)

lemma calculateTensorDims_batch:
  "calculateTensorDims lp ((nm, n # d) # rest) am = Inr (dl, am') \<Longrightarrow>
     hd (dl_output dl) = n \<and> length (dl_output dl) = 4"
  unfolding calculateTensorDims_def
  by (simp split: if_splits;
      (erule conv_dims_batch pooling_dims_batch inner_product_dims_batch concat_dims_batch
        batch_norm_dims_batch default_dims_batch))

lemma concat_loop_total:
  "list_all (\<lambda>k. \<exists>d. map_of im k = Some d \<and> length d = 4) ks \<Longrightarrow>
     \<exists>r. concat_loop im ks acc = Inr r"
proof (induction ks arbitrary: acc)
  case Nil
  show ?case by simp
next
  case (Cons k ks)
  from Cons.prems obtain d where d: "map_of im k = Some d" "length d = 4" by auto
  then obtain n c h w where "d = [n, c, h, w]" using length4 by blast
  with d Cons show ?case by (simp add: getitem_def)
qed

lemma all_inputs_four:
  assumes "list_all (\<lambda>p. length (snd p) = 4) im"
  shows "list_all (\<lambda>k. \<exists>d. map_of im k = Some d \<and> length d = 4) (keys im)"
proof -
  have "\<exists>d. map_of im k = Some d \<and> length d = 4" if "k \<in> set (keys im)" for k
  proof -
    from that have "k \<in> fst ` set im" by (simp add: keys_def)
    then obtain d where d: "map_of im k = Some d"
      by (metis domD dom_map_of_conv_image_fst)
    then have "(k, d) \<in> set im" by (rule map_of_SomeD)
    with assms have "length d = 4" by (auto simp: list_all_iff)
    with d show ?thesis by blast
  qed
  then show ?thesis by (simp add: list_all_iff)
qed

lemma concat_dims_total:
  assumes "list_all (\<lambda>p. length (snd p) = 4) ((nm, [n, c, h, w]) # rest)"
  shows "\<exists>dl. concat_dims ((nm, [n, c, h, w]) # rest) am = Inr (dl, am)"
proof -
  obtain r where
    "concat_loop ((nm, [n, c, h, w]) # rest) (keys ((nm, [n, c, h, w]) # rest)) 0 = Inr r"
    using concat_loop_total [OF all_inputs_four [OF assms]] by blast
  then show ?thesis by (simp add: concat_dims_def)
qed

text \<open>
  On the attributes the extractor built for the layer, shape inference returns whenever
  every input shape has four entries and no resolved stride is zero.
\<close>

lemma calculateTensorDims_total:
  assumes d: "length d = 3"
    and rest: "list_all (\<lambda>p. length (snd p) = 4) rest"
    and nz: "nonzero_strides (extractCaffeAttrInfo lp)"
  shows "\<exists>dl am'. calculateTensorDims lp ((nm, n # d) # rest) (extractCaffeAttrInfo lp)
           = Inr (dl, am')"
proof -
  obtain c h w where dd: "d = [c, h, w]" using length3 [OF d] by blast
  consider (conv) "lp_type lp = ''Convolution''"
    | (deconv) "lp_type lp = ''Deconvolution''"
    | (pool) "lp_type lp = ''Pooling''"
    | (ip) "lp_type lp = ''InnerProduct''"
    | (concat) "lp_type lp = ''Concat''"
    | (bn) "lp_type lp = ''BatchNorm'' \<or> lp_type lp = ''Scale''"
    | (other) "lp_type lp \<noteq> ''Convolution''" "lp_type lp \<noteq> ''Deconvolution''"
        "lp_type lp \<noteq> ''Pooling''" "lp_type lp \<noteq> ''InnerProduct''"
        "lp_type lp \<noteq> ''Concat''" "lp_type lp \<noteq> ''BatchNorm''" "lp_type lp \<noteq> ''Scale''"
    by blast
  then show ?thesis
  proof cases
    case conv
    with nz show ?thesis
      by (simp add: dd calculateTensorDims_def extractCaffeAttrInfo_def conv_dims_def
            conv_axis_def floordiv_def nonzero_strides_def Let_def)
  next
    case deconv
    then show ?thesis
      by (simp add: dd calculateTensorDims_def extractCaffeAttrInfo_def conv_dims_def
            deconv_axis_def Let_def)
  next
    case pool
    with nz show ?thesis
      by (simp add: dd calculateTensorDims_def extractCaffeAttrInfo_def pooling_dims_def
            pool_axis_def pool_clip_def ceildiv_int nonzero_strides_def Let_def)
  next
    case ip
    then show ?thesis
      by (simp add: dd calculateTensorDims_def inner_product_dims_def Let_def)
  next
    case concat
    from rest have "list_all (\<lambda>p. length (snd p) = 4) ((nm, [n, c, h, w]) # rest)" by simp
    from concat_dims_total [OF this] concat show ?thesis
      by (simp add: dd calculateTensorDims_def) blast
  next
    case bn
    then show ?thesis
      by (auto simp add: dd calculateTensorDims_def batch_norm_dims_def)
  next
    case other
    then show ?thesis
      by (simp add: dd calculateTensorDims_def default_dims_def)
  qed
qed

text \<open>
  Claim C8. Whatever the layer type and the attribute dictionary, when the first input
  has batch dimension \<open>n\<close> and shape inference returns, the output shape has four
  entries and its batch dimension is \<open>n\<close>. And it does return, with batch dimension
  \<open>n\<close>, for the attributes the extractor built, when every input shape has four entries
  and no resolved stride is zero.
\<close>

theorem batch_dimension_unchanged:
  "(calculateTensorDims lp ((nm, n # d) # rest) am = Inr (dl, am') \<longrightarrow>
      hd (dl_output dl) = n \<and> length (dl_output dl) = 4) \<and>
   (length d = 3 \<and> list_all (\<lambda>p. length (snd p) = 4) rest \<and>
    nonzero_strides (extractCaffeAttrInfo lp) \<longrightarrow>
      (\<exists>dl' am''. calculateTensorDims lp ((nm, n # d) # rest) (extractCaffeAttrInfo lp)
                     = Inr (dl', am'') \<and> hd (dl_output dl') = n))"
proof (rule conjI)
  show "calculateTensorDims lp ((nm, n # d) # rest) am = Inr (dl, am') \<longrightarrow>
      hd (dl_output dl) = n \<and> length (dl_output dl) = 4"
    using calculateTensorDims_batch by blast
next
  show "length d = 3 \<and> list_all (\<lambda>p. length (snd p) = 4) rest \<and>
    nonzero_strides (extractCaffeAttrInfo lp) \<longrightarrow>
      (\<exists>dl' am''. calculateTensorDims lp ((nm, n # d) # rest) (extractCaffeAttrInfo lp)
                     = Inr (dl', am'') \<and> hd (dl_output dl') = n)"
  proof (rule impI)
    assume "length d = 3 \<and> list_all (\<lambda>p. length (snd p) = 4) rest \<and>
      nonzero_strides (extractCaffeAttrInfo lp)"
    then obtain dl' am'' where
      r: "calculateTensorDims lp ((nm, n # d) # rest) (extractCaffeAttrInfo lp)
            = Inr (dl', am'')"
      using calculateTensorDims_total by blast
    then have "hd (dl_output dl') = n" using calculateTensorDims_batch by blast
    with r show "\<exists>dl' am''. calculateTensorDims lp ((nm, n # d) # rest)
                       (extractCaffeAttrInfo lp) = Inr (dl', am'') \<and> hd (dl_output dl') = n"
      by blast
  qed
qed

theorem batch_dimension_unchanged_witness:
  "calculateTensorDims conv1 [(''data'', [1, 3, 224, 224])] (extractCaffeAttrInfo conv1)
     = Inr (\<lparr>dl_weights = Some [64, 3, 7, 7], dl_bias = Some [64],
              dl_output = [1, 64, 112, 112]\<rparr>, extractCaffeAttrInfo conv1) \<and>
   hd (dl_output \<lparr>dl_weights = Some [64, 3, 7, 7], dl_bias = Some [64],
                   dl_output = [1, 64, 112, 112]\<rparr>) = 1 \<and>
   length [3, 224, 224 :: int] = 3 \<and>
   list_all (\<lambda>p. length (snd p) = 4) ([] :: (string \<times> shape) list) \<and>
   nonzero_strides (extractCaffeAttrInfo conv1) \<and>
   (\<exists>dl' am''. calculateTensorDims conv1 [(''data'', [1, 3, 224, 224])]
                  (extractCaffeAttrInfo conv1) = Inr (dl', am'') \<and> hd (dl_output dl') = 1)"
  using batch_dimension_unchanged
          [of conv1 "''data''" 1 "[3, 224, 224]" "[]" "extractCaffeAttrInfo conv1"
              "\<lparr>dl_weights = Some [64, 3, 7, 7], dl_bias = Some [64],
                dl_output = [1, 64, 112, 112]\<rparr>" "extractCaffeAttrInfo conv1"]
  by (simp add: conv1_def default_layer_def extractCaffeAttrInfo_def resolve_axis_def
        calculateTensorDims_def conv_dims_def conv_axis_def floordiv_def nonzero_strides_def)

subsection \<open>Global pooling\<close>

text \<open>
  For a global pooling layer shape inference overwrites the kernel shape by the input's
  width and height, the strides by 1 and the first two pads by 0; the last two pads keep
  the declared values.
\<close>

lemma global_pooling_dims:
  assumes "lp_type lp = ''Pooling''" and "global_pooling (pooling_param lp)"
  shows "calculateTensorDims lp ((nm, [n, c, h, w]) # rest) (extractCaffeAttrInfo lp) =
     Inr (\<lparr>dl_weights = None, dl_bias = None, dl_output = [n, c, 1, 1]\<rparr>,
          [(''strides'', ints [1, 1]),
           (''kernel_shape'', ints [w, h]),
           (''pads'', ints [0, 0,
              resolve_pool (pool_pad_w (pooling_param lp)) (pool_pad (pooling_param lp)),
              resolve_pool (pool_pad_h (pooling_param lp)) (pool_pad (pooling_param lp))]),
           (''dim_round_mode'', AStr ''ceil'')])"
  using assms
  by (simp add: calculateTensorDims_def extractCaffeAttrInfo_def pooling_dims_def
        pool_axis_def pool_clip_def ceildiv_int Let_def)

section \<open>Properties of the graph builder\<close>

lemma nodes_extractBinary [simp]: "nodes (extractBinary lp g) = nodes g"
  by (simp add: extractBinary_def addBinary_def Let_def)

lemma variables_extractBinary [simp]: "variables (extractBinary lp g) = variables g"
  by (simp add: extractBinary_def addBinary_def Let_def)

lemma nodes_register_variables [simp]: "nodes (register_variables nm dl g) = nodes g"
  by (simp add: register_variables_def addVariable_def Let_def split: option.splits)

lemma record_layer_simps [simp]:
  "inputOutputMap (record_layer st lp info dl) = inputOutputMap st @ [info]"
  "dropoutLayerMap (record_layer st lp info dl) = dropoutLayerMap st"
  "splitLayerMap (record_layer st lp info dl) = splitLayerMap st"
  "nodes (graph (record_layer st lp info dl)) = nodes (graph st)"
  "variables (graph (record_layer st lp info dl))
     = variables (register_variables (caffe_name_to_ir_name (lp_name lp)) dl (graph st))"
  "count (record_layer st lp info dl) = Suc (count st)"
  by (simp_all add: record_layer_def count_def Let_def register_variables_def addVariable_def
                    split: option.splits)

text \<open>
  What a successful \<open>operator_step\<close> did: it fixed the operator type, resolved the
  inputs, inferred the shapes, stored the record, and emitted the node unless the layer
  is a \<open>batch_norm\<close> followed by a Scale layer.
\<close>

lemma operator_stepE:
  assumes "operator_step nxt info st lp lt0 = Inr st'"
  obtains t iim dl am where
    "(if lp_type lp = ''ReLU'' then
        bind_err (getitem (extractCaffeAttrInfo lp) ''alpha'') (\<lambda>a.
          Inr (if nonzero a then Some ''leaky_relu'' else lt0))
      else Inr lt0) = Inr (Some t)"
    and "(if count st = 0 then
            first_layer_inputs info (caffe_name_to_ir_name (lp_name lp)) (lp_bottom lp) []
          else resolve_inputs st (lp_type lp) (caffe_name_to_ir_name (lp_name lp)) 0
                 (lp_bottom lp) []) = Inr iim"
    and "calculateTensorDims lp iim (extractCaffeAttrInfo lp) = Inr (dl, am)"
    and "t = ''batch_norm'' \<and> nxt = Some ''Scale'' \<Longrightarrow>
           st' = record_layer st lp
                   (new_layer_info (caffe_name_to_ir_name (lp_name lp)) t am iim dl) dl"
    and "\<not> (t = ''batch_norm'' \<and> nxt = Some ''Scale'') \<Longrightarrow>
           \<exists>node. caffe_node_to_ir_node t
                    (new_layer_info (caffe_name_to_ir_name (lp_name lp)) t am iim dl) = Inr node
                \<and> st' = (record_layer st lp
                          (new_layer_info (caffe_name_to_ir_name (lp_name lp)) t am iim dl) dl)
                         \<lparr>graph := addNode node (graph (record_layer st lp
                          (new_layer_info (caffe_name_to_ir_name (lp_name lp)) t am iim dl) dl))\<rparr>"
proof -
  from assms obtain lt iim r where
    1: "(if lp_type lp = ''ReLU'' then
        bind_err (getitem (extractCaffeAttrInfo lp) ''alpha'') (\<lambda>a.
          Inr (if nonzero a then Some ''leaky_relu'' else lt0))
      else Inr lt0) = Inr lt"
    and 2: "(if count st = 0 then
            first_layer_inputs info (caffe_name_to_ir_name (lp_name lp)) (lp_bottom lp) []
          else resolve_inputs st (lp_type lp) (caffe_name_to_ir_name (lp_name lp)) 0
                 (lp_bottom lp) []) = Inr iim"
    and 3: "calculateTensorDims lp iim (extractCaffeAttrInfo lp) = Inr r"
    and 4: "(case r of (dimList, attribute_map) \<Rightarrow>
              (case lt of
                 None \<Rightarrow> Inl KeyError
               | Some t \<Rightarrow>
                   (let layer_info_map =
                          new_layer_info (caffe_name_to_ir_name (lp_name lp)) t attribute_map iim dimList;
                        st1 = record_layer st lp layer_info_map dimList
                    in if t = ''batch_norm'' \<and> nxt = Some ''Scale'' then Inr st1
                       else bind_err (caffe_node_to_ir_node t layer_info_map) (\<lambda>node.
                              Inr (st1\<lparr>graph := addNode node (graph st1)\<rparr>))))) = Inr st'"
    unfolding operator_step_def Let_def by (elim bind_errE) blast
  obtain dl am where r: "r = (dl, am)" by (cases r)
  from 4 r obtain t where t: "lt = Some t" by (cases lt) auto
  show ?thesis
  proof (rule that [of t iim dl am])
    show "(if lp_type lp = ''ReLU'' then
        bind_err (getitem (extractCaffeAttrInfo lp) ''alpha'') (\<lambda>a.
          Inr (if nonzero a then Some ''leaky_relu'' else lt0))
      else Inr lt0) = Inr (Some t)" using 1 t by simp
    show "(if count st = 0 then
            first_layer_inputs info (caffe_name_to_ir_name (lp_name lp)) (lp_bottom lp) []
          else resolve_inputs st (lp_type lp) (caffe_name_to_ir_name (lp_name lp)) 0
                 (lp_bottom lp) []) = Inr iim" by (rule 2)
    show "calculateTensorDims lp iim (extractCaffeAttrInfo lp) = Inr (dl, am)"
      using 3 r by simp
    show "st' = record_layer st lp
                   (new_layer_info (caffe_name_to_ir_name (lp_name lp)) t am iim dl) dl"
      if "t = ''batch_norm'' \<and> nxt = Some ''Scale''"
      using 4 r t that by (simp add: Let_def)
    show "\<exists>node. caffe_node_to_ir_node t
                    (new_layer_info (caffe_name_to_ir_name (lp_name lp)) t am iim dl) = Inr node
                \<and> st' = (record_layer st lp
                          (new_layer_info (caffe_name_to_ir_name (lp_name lp)) t am iim dl) dl)
                         \<lparr>graph := addNode node (graph (record_layer st lp
                          (new_layer_info (caffe_name_to_ir_name (lp_name lp)) t am iim dl) dl))\<rparr>"
      if "\<not> (t = ''batch_norm'' \<and> nxt = Some ''Scale'')"
      using 4 r t that by (auto simp add: Let_def bind_err_eq_Inr)
  qed
qed

lemma first_input_Inr: "first_input im = Inr d \<Longrightarrow> \<exists>k rest. im = (k, d) # rest"
  by (cases im) (auto simp: first_input_def keys_def)

lemma first_layer_inputs_single:
  "first_layer_inputs info l [x] [] = Inr iim \<Longrightarrow> \<exists>d. iim = [(caffe_name_to_ir_name x, d)]"
  by (auto simp: Let_def bind_err_eq_Inr split: if_splits)

lemma resolve_inputs_single:
  "resolve_inputs st t l 0 [x] [] = Inr iim \<Longrightarrow> \<exists>nm d. iim = [(nm, d)]"
  by (auto simp: Let_def bind_err_eq_Inr split: if_splits)

lemma batch_norm_dims_Inr:
  assumes "batch_norm_dims lp im am = Inr (dl, am')"
  shows "\<exists>k n c h w rest. im = (k, [n, c, h, w]) # rest \<and> am' = am \<and>
           dl_weights dl = (if length (lp_blobs lp) > 0 then Some [c] else None) \<and>
           dl_bias dl = (if length (lp_blobs lp) > 1 then Some [c] else None) \<and>
           dl_output dl = [n, c, h, w]"
proof -
  from assms have "\<exists>n c h w. first_input im = Inr [n, c, h, w] \<and> am' = am \<and>
           dl_weights dl = (if length (lp_blobs lp) > 0 then Some [c] else None) \<and>
           dl_bias dl = (if length (lp_blobs lp) > 1 then Some [c] else None) \<and>
           dl_output dl = [n, c, h, w]"
    by (clarsimp simp: batch_norm_dims_def bind_err_eq_Inr unpack4_Inr) blast
  then obtain n c h w where f: "first_input im = Inr [n, c, h, w]" and a: "am' = am"
    and d: "dl_weights dl = (if length (lp_blobs lp) > 0 then Some [c] else None)"
           "dl_bias dl = (if length (lp_blobs lp) > 1 then Some [c] else None)"
           "dl_output dl = [n, c, h, w]"
    by blast
  from first_input_Inr [OF f] obtain k rest where "im = (k, [n, c, h, w]) # rest" by blast
  with a d show ?thesis by blast
qed

lemma convert_epsilon [simp]:
  "caffe_attr_to_ir_attr [(''epsilon'', AFloat e)] = Inr [(''epsilon'', IrFloat e)]"
  by (simp add: caffe_attr_to_ir_attr_def)

text \<open>The definitions a run of the pass on a concrete model unfolds.\<close>

lemmas eval_defs = caffe_graph_to_ir_graph_def extractInput_def extractCaffeNodeInfo_def
  node_step_def operator_step_def fuse_scale_def dropout_step_def split_step_def
  first_of_def is_data_layer_def initial_state_def empty_graph_def count_def
  caffe2ir_op_type_def contains_def renamed_def caffe_name_to_ir_name_map
  extractCaffeAttrInfo_def calculateTensorDims_def batch_norm_dims_def default_dims_def
  conv_dims_def conv_axis_def pooling_dims_def pool_axis_def pool_clip_def ceildiv_int
  floordiv_def inner_product_dims_def concat_dims_def
  register_variables_def new_layer_info_def record_layer_def extractBinary_def addBinary_def
  addVariable_def addNode_def addInput_def caffe_blob_to_ir_tensor_def
  caffe_node_to_ir_node_def caffe_attr_to_ir_attr_def keys_def keys_of_def dict_update_def
  Let_def resolve_axis_def resolve_pool_def default_layer_def data_layer_def input_state_def
  ints_def item_def setitem_def

subsection \<open>BatchNorm followed by Scale\<close>

text \<open>
  A step raises \<open>count\<close> by at most one, so \<open>count\<close> plus the number of layers still
  to come never exceeds \<open>len(layers)\<close>: where two layers are still to come,
  \<open>count + 1 < len(layers)\<close>.
\<close>

lemma fuse_scale_count:
  assumes "fuse_scale st sc = Inr st'"
  shows "count st' = count st"
  using assms unfolding fuse_scale_def Let_def
  apply (elim bind_errE)
  apply (clarsimp split: prod.splits)
  apply (elim bind_errE)
  apply (clarsimp simp: count_def)
  done

lemma operator_step_count:
  assumes "operator_step nxt info st lp lt0 = Inr st'"
  shows "count st' = Suc (count st)"
  using assms
proof (rule operator_stepE)
  fix t iim dl am
  assume rec: "t = ''batch_norm'' \<and> nxt = Some ''Scale'' \<Longrightarrow>
           st' = record_layer st lp
                   (new_layer_info (caffe_name_to_ir_name (lp_name lp)) t am iim dl) dl"
    and emit: "\<not> (t = ''batch_norm'' \<and> nxt = Some ''Scale'') \<Longrightarrow>
           \<exists>node. caffe_node_to_ir_node t
                    (new_layer_info (caffe_name_to_ir_name (lp_name lp)) t am iim dl) = Inr node
                \<and> st' = (record_layer st lp
                          (new_layer_info (caffe_name_to_ir_name (lp_name lp)) t am iim dl) dl)
                         \<lparr>graph := addNode node (graph (record_layer st lp
                          (new_layer_info (caffe_name_to_ir_name (lp_name lp)) t am iim dl) dl))\<rparr>"
  show ?thesis
  proof (cases "t = ''batch_norm'' \<and> nxt = Some ''Scale''")
    case True
    with rec show ?thesis by simp
  next
    case False
    with emit show ?thesis by (auto simp: count_def)
  qed
qed

lemma node_step_count_le:
  assumes "node_step nl nxt info st l = Inr st'"
  shows "count st' \<le> Suc (count st)"
proof -
  consider (skip) "lp_type l = ''Data'' \<or> lp_type l = ''ImageData'' \<or> lp_type l = ''Input''"
    | (dropout) "lp_type l = ''Dropout''"
    | (split) "lp_type l = ''Split''"
    | (other) "is_operator (lp_type l)"
    unfolding is_operator_def by blast
  then show ?thesis
  proof cases
    case skip
    with assms show ?thesis by (auto simp: node_step_def)
  next
    case dropout
    with assms show ?thesis
      by (auto simp: node_step_def dropout_step_def bind_err_eq_Inr Let_def count_def)
  next
    case split
    with assms show ?thesis
      by (auto simp: node_step_def split_step_def bind_err_eq_Inr Let_def count_def)
  next
    case other
    with assms consider
        (op) lt where "operator_step nxt info st l lt = Inr st'"
      | (fuse) "fuse_scale st l = Inr st'"
      unfolding node_step_def is_operator_def
      by (auto split: if_splits)
    then show ?thesis
    proof cases
      case op
      then show ?thesis by (simp add: operator_step_count)
    next
      case fuse
      then show ?thesis by (simp add: fuse_scale_count)
    qed
  qed
qed

lemma loop_states_bound:
  "(st', ls') \<in> set (loop_states nl info st ls) \<Longrightarrow> count st + length ls \<le> nl \<Longrightarrow>
     count st' + length ls' \<le> nl"
proof (induction ls arbitrary: st)
  case Nil
  then show ?case by simp
next
  case (Cons l ls)
  show ?case
  proof (cases "(st', ls') = (st, l # ls)")
    case True
    with Cons.prems show ?thesis by simp
  next
    case False
    show ?thesis
    proof (cases "node_step nl (case ls of [] \<Rightarrow> None | x # _ \<Rightarrow> Some (lp_type x)) info st l")
      case (Inl e)
      with Cons.prems(1) False show ?thesis by simp
    next
      case (Inr st1)
      with Cons.prems(1) False have mem: "(st', ls') \<in> set (loop_states nl info st1 ls)"
        by auto
      from node_step_count_le [OF Inr] Cons.prems(2) have "count st1 + length ls \<le> nl"
        by simp
      from Cons.IH [OF mem this] show ?thesis .
    qed
  qed
qed

lemma reached_count:
  assumes "(st, l # m # post) \<in> set (loop_states (length ls) info (initial_state g) ls)"
  shows "Suc (count st) < length ls"
proof -
  have "count (initial_state g) + length ls \<le> length ls"
    by (simp add: count_def initial_state_def)
  from loop_states_bound [OF assms this] show ?thesis by simp
qed

text \<open>
  Claim C1, as the code has it. The pass over the layers \<open>ls\<close> reaches, in state \<open>st\<close>,
  a BatchNorm layer with one bottom, immediately followed by a Scale layer with two raw
  blobs and a top, and processes the BatchNorm layer. Then the BatchNorm step emits
  no node, and the Scale step succeeds, stores no new record, emits exactly one node, of
  type \<open>batch_norm\<close>, and registers exactly two variables, the scale weight and the
  scale bias. The node's inputs are the one primary input of the BatchNorm record, the
  scale weight, the scale bias, and then the BatchNorm's own weight and bias names, as
  many of the two as the BatchNorm layer has raw blobs: 3 + min 2 (number of blobs)
  names.
\<close>

theorem batch_norm_scale_fusion:
  assumes reach: "(st, bn # sc # post)
                    \<in> set (loop_states (length ls) inputsInfo (initial_state g) ls)"
    and bn: "lp_type bn = ''BatchNorm''" and bottom: "lp_bottom bn = [b]"
    and sc: "lp_type sc = ''Scale''" and blobs: "length (lp_blobs sc) = 2"
    and top: "lp_top sc = t # ts"
    and step: "node_step (length ls) (Some ''Scale'') inputsInfo st bn = Inr st1"
  shows "\<exists>st2 node c.
           node_step (length ls) next_type inputsInfo st1 sc = Inr st2 \<and>
           nodes (graph st1) = nodes (graph st) \<and>
           nodes (graph st2) = nodes (graph st) @ [node] \<and>
           count st2 = count st1 \<and>
           node_type node = ''batch_norm'' \<and>
           length (inputs (inputOutputMap st1 ! count st)) = 1 \<and>
           node_inputs node =
             map caffe_name_to_ir_name (keys (inputs (inputOutputMap st1 ! count st)))
             @ [caffe_name_to_ir_name (caffe_name_to_ir_name (lp_name sc) @ ''_w''),
                caffe_name_to_ir_name (caffe_name_to_ir_name (lp_name sc) @ ''_b'')]
             @ map caffe_name_to_ir_name
                 (take (length (lp_blobs bn))
                    [caffe_name_to_ir_name (lp_name bn) @ ''_w'',
                     caffe_name_to_ir_name (lp_name bn) @ ''_b'']) \<and>
           length (node_inputs node) = 3 + min 2 (length (lp_blobs bn)) \<and>
           variables (graph st2) = variables (graph st1)
             @ [caffe_blob_to_ir_tensor (caffe_name_to_ir_name (lp_name sc) @ ''_w'') ''F032'' [c],
                caffe_blob_to_ir_tensor (caffe_name_to_ir_name (lp_name sc) @ ''_b'') ''F032'' [c]]"
proof -
  note cnt = reached_count [OF reach]
  from step bn have "operator_step (Some ''Scale'') inputsInfo st bn (Some ''batch_norm'') = Inr st1"
    by (simp add: node_step_def contains_def caffe2ir_op_type_def)
  then obtain tt iim dl am where
    tt: "Inr (Some ''batch_norm'') = (Inr (Some tt) :: error + string option)"
    and iim: "(if count st = 0 then
            first_layer_inputs inputsInfo (caffe_name_to_ir_name (lp_name bn)) (lp_bottom bn) []
          else resolve_inputs st (lp_type bn) (caffe_name_to_ir_name (lp_name bn)) 0
                 (lp_bottom bn) []) = Inr iim"
    and calc: "calculateTensorDims bn iim (extractCaffeAttrInfo bn) = Inr (dl, am)"
    and st1: "tt = ''batch_norm'' \<and> Some ''Scale'' = Some ''Scale'' \<Longrightarrow>
           st1 = record_layer st bn
                   (new_layer_info (caffe_name_to_ir_name (lp_name bn)) tt am iim dl) dl"
    using bn by (elim operator_stepE) simp
  from tt have tt': "tt = ''batch_norm''" by simp
  have "\<exists>k d. iim = [(k, d)]"
  proof (cases "count st = 0")
    case True
    with iim bottom show ?thesis using first_layer_inputs_single by fastforce
  next
    case False
    with iim bottom show ?thesis using resolve_inputs_single by fastforce
  qed
  then obtain k d where iim1: "iim = [(k, d)]" by blast
  from calc bn have "batch_norm_dims bn iim [(''epsilon'', AFloat (batch_norm_eps bn))] = Inr (dl, am)"
    by (simp add: calculateTensorDims_def extractCaffeAttrInfo_def)
  from batch_norm_dims_Inr [OF this] iim1 obtain n c h w where
    d: "d = [n, c, h, w]" and am: "am = [(''epsilon'', AFloat (batch_norm_eps bn))]"
    and dl: "dl_weights dl = (if length (lp_blobs bn) > 0 then Some [c] else None)"
            "dl_bias dl = (if length (lp_blobs bn) > 1 then Some [c] else None)"
            "dl_output dl = [n, c, h, w]"
    by auto
  note st1' = st1 [OF conjI [OF tt' refl]]
  have nodes1: "nodes (graph st1) = nodes (graph st)"
    by (simp add: st1')
  have last: "inputOutputMap st1 ! length (inputOutputMap st)
                = new_layer_info (caffe_name_to_ir_name (lp_name bn)) ''batch_norm'' am iim dl"
    by (simp add: st1' tt')
  have cnt1: "length (inputOutputMap st1) = Suc (length (inputOutputMap st))"
    by (simp add: st1')
  have fuse: "node_step (length ls) next_type inputsInfo st1 sc = fuse_scale st1 sc"
    using sc cnt cnt1 last
    by (simp add: node_step_def contains_def caffe2ir_op_type_def new_layer_info_def count_def)
  note eval = fuse_scale_def Let_def last new_layer_info_def calculateTensorDims_def
        batch_norm_dims_def iim1 d am dl first_of_def caffe_node_to_ir_node_def keys_def
        keys_of_def register_variables_def addVariable_def addNode_def count_def
        caffe_blob_to_ir_tensor_def
  show ?thesis
  proof (cases "lp_blobs bn")
    case Nil
    then show ?thesis
      unfolding fuse using sc blobs top cnt1 nodes1 by (simp add: eval)
  next
    case (Cons x xs)
    then show ?thesis
      unfolding fuse using sc blobs top cnt1 nodes1 by (cases xs) (simp_all add: eval)
  qed
qed

theorem batch_norm_scale_fusion_witness:
  "(input_state [1, 3, 4, 4], bn1 # scale2 # [])
     \<in> set (loop_states (length (layer bn_scale_net)) [(''data'', [1, 3, 4, 4])]
              (initial_state (addInput (caffe_blob_to_ir_tensor ''data'' ''F032'' [1, 3, 4, 4])
                                empty_graph))
              (layer bn_scale_net)) \<and>
   (\<exists>st1 st2 node.
     node_step 3 (Some ''Scale'') [(''data'', [1, 3, 4, 4])] (input_state [1, 3, 4, 4]) bn1
       = Inr st1 \<and>
     node_step 3 None [(''data'', [1, 3, 4, 4])] st1 scale2 = Inr st2 \<and>
     nodes (graph st1) = [] \<and>
     nodes (graph st2) = [node] \<and>
     node_type node = ''batch_norm'' \<and>
     tl (node_inputs node) = [''scale2_w'', ''scale2_b'', ''bn1_w'', ''bn1_b''] \<and>
     length (node_inputs node) = 5 \<and>
     length (variables (graph st2)) = length (variables (graph st1)) + 2)"
proof -
  have reach: "(input_state [1, 3, 4, 4], bn1 # scale2 # [])
     \<in> set (loop_states (length (layer bn_scale_net)) [(''data'', [1, 3, 4, 4])]
              (initial_state (addInput (caffe_blob_to_ir_tensor ''data'' ''F032'' [1, 3, 4, 4])
                                empty_graph))
              (layer bn_scale_net))"
    by (simp add: bn_scale_net_def input_state_def node_step_def data_layer_def
          default_layer_def)
  have len: "length (layer bn_scale_net) = 3" by (simp add: bn_scale_net_def)
  have "\<exists>st1. node_step 3 (Some ''Scale'') [(''data'', [1, 3, 4, 4])]
                (input_state [1, 3, 4, 4]) bn1 = Inr st1"
    by (simp add: eval_defs bn1_def)
  then obtain st1 where
    s1: "node_step 3 (Some ''Scale'') [(''data'', [1, 3, 4, 4])]
           (input_state [1, 3, 4, 4]) bn1 = Inr st1"
    by blast
  have h: "lp_type bn1 = ''BatchNorm''" "lp_bottom bn1 = [''data'']"
    "lp_type scale2 = ''Scale''" "length (lp_blobs scale2) = 2" "lp_top scale2 = ''scale2'' # []"
    by (simp_all add: bn1_def scale2_def default_layer_def)
  have nm: "caffe_name_to_ir_name (caffe_name_to_ir_name (lp_name scale2) @ ''_w'') = ''scale2_w''"
    "caffe_name_to_ir_name (caffe_name_to_ir_name (lp_name scale2) @ ''_b'') = ''scale2_b''"
    "caffe_name_to_ir_name (caffe_name_to_ir_name (lp_name bn1) @ ''_w'') = ''bn1_w''"
    "caffe_name_to_ir_name (caffe_name_to_ir_name (lp_name bn1) @ ''_b'') = ''bn1_b''"
    "length (lp_blobs bn1) = 3"
    "nodes (graph (input_state [1, 3, 4, 4])) = []"
    by (simp_all add: bn1_def scale2_def default_layer_def caffe_name_to_ir_name_map
          input_state_def initial_state_def empty_graph_def addInput_def)
  from batch_norm_scale_fusion [OF reach h, unfolded len, OF s1, of None]
  obtain st2 node c where
    r: "node_step 3 None [(''data'', [1, 3, 4, 4])] st1 scale2 = Inr st2"
      "nodes (graph st1) = nodes (graph (input_state [1, 3, 4, 4]))"
      "nodes (graph st2) = nodes (graph (input_state [1, 3, 4, 4])) @ [node]"
      "node_type node = ''batch_norm''"
      "length (inputs (inputOutputMap st1 ! count (input_state [1, 3, 4, 4]))) = 1"
      "node_inputs node =
             map caffe_name_to_ir_name
               (keys (inputs (inputOutputMap st1 ! count (input_state [1, 3, 4, 4]))))
             @ [caffe_name_to_ir_name (caffe_name_to_ir_name (lp_name scale2) @ ''_w''),
                caffe_name_to_ir_name (caffe_name_to_ir_name (lp_name scale2) @ ''_b'')]
             @ map caffe_name_to_ir_name
                 (take (length (lp_blobs bn1))
                    [caffe_name_to_ir_name (lp_name bn1) @ ''_w'',
                     caffe_name_to_ir_name (lp_name bn1) @ ''_b''])"
      "variables (graph st2) = variables (graph st1)
             @ [caffe_blob_to_ir_tensor (caffe_name_to_ir_name (lp_name scale2) @ ''_w'') ''F032'' [c],
                caffe_blob_to_ir_tensor (caffe_name_to_ir_name (lp_name scale2) @ ''_b'') ''F032'' [c]]"
    by blast
  from r(5) obtain k where
    "map caffe_name_to_ir_name
       (keys (inputs (inputOutputMap st1 ! count (input_state [1, 3, 4, 4])))) = [k]"
    by (cases "inputs (inputOutputMap st1 ! count (input_state [1, 3, 4, 4]))")
       (auto simp: keys_def)
  with s1 r reach show ?thesis by (simp add: nm)
qed

text \<open>
  Claim C1, as the specification states it, fails: a BatchNorm layer with its three
  trained blobs followed by a Scale layer with two blobs yields one \<open>batch_norm\<close> node
  with five input names, not four.
\<close>

theorem fused_node_has_five_inputs:
  "map_sum id (\<lambda>st. map (\<lambda>n. (node_type n, node_inputs n)) (nodes (graph st)))
     (caffe_graph_to_ir_graph bn_scale_net [1, 3, 4, 4])
   = Inr [(''batch_norm'', [''data'', ''scale2_w'', ''scale2_b'', ''bn1_w'', ''bn1_b''])]"
  by (simp add: eval_defs bn_scale_net_def bn1_def scale2_def)

subsection \<open>A Scale layer with no record before it\<close>

text \<open>
  When a record exists and it is not a \<open>batch_norm\<close> record, a Scale layer that is
  processed yields one node, of type \<open>mul\<close> with exactly one raw blob and \<open>muladd\<close>
  otherwise.
\<close>

lemma operator_step_emits:
  assumes step: "operator_step nxt info st lp (Some lt0) = Inr st'"
    and "lp_type lp \<noteq> ''ReLU''" and "lt0 \<noteq> ''batch_norm''"
  shows "\<exists>iim dl am node.
           calculateTensorDims lp iim (extractCaffeAttrInfo lp) = Inr (dl, am) \<and>
           caffe_node_to_ir_node lt0
             (new_layer_info (caffe_name_to_ir_name (lp_name lp)) lt0 am iim dl) = Inr node \<and>
           st' = (record_layer st lp
                    (new_layer_info (caffe_name_to_ir_name (lp_name lp)) lt0 am iim dl) dl)
                 \<lparr>graph := addNode node (graph (record_layer st lp
                    (new_layer_info (caffe_name_to_ir_name (lp_name lp)) lt0 am iim dl) dl))\<rparr>"
  using step
proof (rule operator_stepE)
  fix t iim dl am
  assume t: "(if lp_type lp = ''ReLU'' then
        bind_err (getitem (extractCaffeAttrInfo lp) ''alpha'') (\<lambda>a.
          Inr (if nonzero a then Some ''leaky_relu'' else Some lt0))
      else Inr (Some lt0)) = Inr (Some t)"
    and calc: "calculateTensorDims lp iim (extractCaffeAttrInfo lp) = Inr (dl, am)"
    and emit: "\<not> (t = ''batch_norm'' \<and> nxt = Some ''Scale'') \<Longrightarrow>
           \<exists>node. caffe_node_to_ir_node t
                    (new_layer_info (caffe_name_to_ir_name (lp_name lp)) t am iim dl) = Inr node
                \<and> st' = (record_layer st lp
                          (new_layer_info (caffe_name_to_ir_name (lp_name lp)) t am iim dl) dl)
                         \<lparr>graph := addNode node (graph (record_layer st lp
                          (new_layer_info (caffe_name_to_ir_name (lp_name lp)) t am iim dl) dl))\<rparr>"
  from t assms(2) have tt: "t = lt0" by simp
  with assms(3) emit calc show ?thesis by blast
qed

lemma scale_after_record:
  assumes sc: "lp_type sc = ''Scale''"
    and cnt: "0 < count st" "count st < nlayers"
    and prev: "layer_type (inputOutputMap st ! (count st - 1)) \<noteq> ''batch_norm''"
    and step: "node_step nlayers nxt info st sc = Inr st'"
  shows "\<exists>node. nodes (graph st') = nodes (graph st) @ [node] \<and>
           node_type node = (if length (lp_blobs sc) = 1 then ''mul'' else ''muladd'')"
proof -
  define lt0 where "lt0 = (if length (lp_blobs sc) = 1 then ''mul'' else ''muladd'')"
  from step sc cnt prev have op: "operator_step nxt info st sc (Some lt0) = Inr st'"
    by (simp add: node_step_def contains_def caffe2ir_op_type_def lt0_def)
  have "lp_type sc \<noteq> ''ReLU''" "lt0 \<noteq> ''batch_norm''"
    using sc by (simp_all add: lt0_def)
  from operator_step_emits [OF op this] obtain iim dl am node where
    node: "caffe_node_to_ir_node lt0
             (new_layer_info (caffe_name_to_ir_name (lp_name sc)) lt0 am iim dl) = Inr node"
    and st': "st' = (record_layer st sc
                      (new_layer_info (caffe_name_to_ir_name (lp_name sc)) lt0 am iim dl) dl)
                    \<lparr>graph := addNode node (graph (record_layer st sc
                      (new_layer_info (caffe_name_to_ir_name (lp_name sc)) lt0 am iim dl) dl))\<rparr>"
    by blast
  from node have "node_type node = lt0"
    by (auto simp: caffe_node_to_ir_node_def bind_err_eq_Inr Let_def)
  with st' show ?thesis by (auto simp: addNode_def lt0_def)
qed

text \<open>
  Claim C5 at the input where the code departs from it. When a Scale layer is the first
  layer to be recorded (\<open>count == 0\<close>), no branch sets \<open>layer_info_map["layer_type"]\<close>,
  and the pass stops with a \<open>KeyError\<close> when it reads that key, with one raw blob as with
  two; no \<open>mul\<close> or \<open>muladd\<close> node is emitted.
\<close>

theorem scale_first_raises:
  "caffe_graph_to_ir_graph (scale_first_net [[2, 2, 2]]) [1, 3, 4, 4] = Inl KeyError \<and>
   caffe_graph_to_ir_graph (scale_first_net [[2, 2, 2], [0, 0, 0]]) [1, 3, 4, 4] = Inl KeyError"
  by (simp add: eval_defs scale_first_net_def scale1_def)

subsection \<open>The inputs of the first layer\<close>

text \<open>
  \<open>extractInput\<close> stores the input dimensions under a canonical name. The first layer
  finds them when its raw input name is that name and holds no separator, and stops when
  the raw name holds a \<open>/\<close> or a \<open>-\<close>, whatever its canonical form.
\<close>

lemma canonical_has_no_separator:
  "CHR ''/'' \<notin> set (caffe_name_to_ir_name nm) \<and> CHR ''-'' \<notin> set (caffe_name_to_ir_name nm)"
  by (auto simp: caffe_name_to_ir_name_map)

lemma first_layer_raw_name:
  assumes "CHR ''/'' \<in> set x \<or> CHR ''-'' \<in> set x"
  shows "first_layer_inputs [(caffe_name_to_ir_name nm, dims)] lname (x # xs) im
           = Inl (ExitNoInputDimensions lname)"
proof -
  from assms canonical_has_no_separator [of nm] have "caffe_name_to_ir_name nm \<noteq> x" by auto
  then show ?thesis by (simp add: contains_def Let_def)
qed

lemma canonical_fixed:
  "CHR ''/'' \<notin> set x \<Longrightarrow> CHR ''-'' \<notin> set x \<Longrightarrow> caffe_name_to_ir_name x = x"
  by (induction x) (auto simp: caffe_name_to_ir_name_map)

lemma first_layer_plain_name:
  assumes "CHR ''/'' \<notin> set x" and "CHR ''-'' \<notin> set x"
  shows "first_layer_inputs [(caffe_name_to_ir_name x, dims)] lname [x] [] = Inr [(x, dims)]"
  using canonical_fixed [OF assms] by (simp add: contains_def Let_def)

text \<open>
  Claim C6 at the input where the code departs from it. The network input is declared as
  \<open>data/in\<close> and the first layer reads \<open>data/in\<close>. \<open>extractInput\<close> stores the dimensions
  under the canonical name \<open>data_in\<close>, the first layer tests the raw name \<open>data/in\<close>
  for membership, and the pass stops with the input-dimensions error although the
  canonical names are equal.
\<close>

theorem first_layer_raw_name_lookup:
  "caffe_graph_to_ir_graph slash_net [1, 3, 224, 224] = Inl (ExitNoInputDimensions ''conv1'')"
  by (simp add: eval_defs slash_net_def conv1_def)

subsection \<open>Dropout\<close>











subsection \<open>Global pooling in the pass\<close>

lemma pooling_dims_input:
  assumes "pooling_dims lp im am = Inr r"
  shows "\<exists>nm n c h w rest. im = (nm, [n, c, h, w]) # rest"
proof -
  from assms obtain d x where "first_input im = Inr d" and "unpack4 d = Inr x"
    unfolding pooling_dims_def by (elim bind_errE)
  then show ?thesis
    by (cases x) (auto simp: unpack4_Inr dest!: first_input_Inr)
qed

text \<open>
  Claim C9. For a Pooling layer with the global pooling flag, shape inference on the
  extractor's dictionary returns the output shape (n,c,1,1) and leaves the dictionary
  with strides (1,1), the kernel shape (input width, input height) and pads (0, 0,
  declared pad_w, declared pad_h). When the layer is processed in the pass, the record
  stored for it holds the attribute lists as shape inference left them: strides (1,1),
  the kernel shape (input width, input height), and pads whose first two entries are 0
  and whose last two entries are the declared pads (the extractor's dictionary holds the
  declared pads in all four places). The node emitted for the layer carries exactly
  these values, not the declared ones.
\<close>

theorem global_pooling_attributes_mutated:
  assumes pool: "lp_type lp = ''Pooling''" and glob: "global_pooling (pooling_param lp)"
    and step: "node_step nlayers next_type inputsInfo st lp = Inr st'"
  shows "calculateTensorDims lp ((nmi, [ni, ci, hi, wi]) # resti) (extractCaffeAttrInfo lp) =
             Inr (\<lparr>dl_weights = None, dl_bias = None, dl_output = [ni, ci, 1, 1]\<rparr>,
                  [(''strides'', ints [1, 1]),
                   (''kernel_shape'', ints [wi, hi]),
                   (''pads'', ints [0, 0, resolve_pool (pool_pad_w (pooling_param lp)) (pool_pad (pooling_param lp)), resolve_pool (pool_pad_h (pooling_param lp)) (pool_pad (pooling_param lp))]),
                   (''dim_round_mode'', AStr ''ceil'')]) \<and>
         (\<exists>nm n c h w rest info node.
           inputOutputMap st' = inputOutputMap st @ [info] \<and>
           inputs info = (nm, [n, c, h, w]) # rest \<and>
           map_of (extractCaffeAttrInfo lp) ''pads'' = Some (ints [resolve_pool (pool_pad_w (pooling_param lp)) (pool_pad (pooling_param lp)), resolve_pool (pool_pad_h (pooling_param lp)) (pool_pad (pooling_param lp)), resolve_pool (pool_pad_w (pooling_param lp)) (pool_pad (pooling_param lp)), resolve_pool (pool_pad_h (pooling_param lp)) (pool_pad (pooling_param lp))]) \<and>
           map_of (attributes info) ''strides'' = Some (ints [1, 1]) \<and>
           map_of (attributes info) ''kernel_shape'' = Some (ints [w, h]) \<and>
           map_of (attributes info) ''pads'' = Some (ints [0, 0, resolve_pool (pool_pad_w (pooling_param lp)) (pool_pad (pooling_param lp)), resolve_pool (pool_pad_h (pooling_param lp)) (pool_pad (pooling_param lp))]) \<and>
           nodes (graph st') = nodes (graph st) @ [node] \<and>
           map_of (node_attr node) ''strides'' = Some (IrInts [1, 1]) \<and>
           map_of (node_attr node) ''kernel_shape'' = Some (IrInts [w, h]) \<and>
           map_of (node_attr node) ''pads'' = Some (IrInts [0, 0, resolve_pool (pool_pad_w (pooling_param lp)) (pool_pad (pooling_param lp)), resolve_pool (pool_pad_h (pooling_param lp)) (pool_pad (pooling_param lp))]))"
proof -
  define lt0 where
    "lt0 = (if pool (pooling_param lp) = PoolMAX then ''max_pool'' else ''avg_pool'')"
  from step pool have "operator_step next_type inputsInfo st lp (Some lt0) = Inr st'"
    by (simp add: node_step_def contains_def caffe2ir_op_type_def lt0_def)
  then obtain t iim dl am where
    t: "Inr (Some lt0) = (Inr (Some t) :: error + string option)"
    and calc: "calculateTensorDims lp iim (extractCaffeAttrInfo lp) = Inr (dl, am)"
    and emit: "\<not> (t = ''batch_norm'' \<and> next_type = Some ''Scale'') \<Longrightarrow>
           \<exists>node. caffe_node_to_ir_node t
                    (new_layer_info (caffe_name_to_ir_name (lp_name lp)) t am iim dl) = Inr node
                \<and> st' = (record_layer st lp
                          (new_layer_info (caffe_name_to_ir_name (lp_name lp)) t am iim dl) dl)
                         \<lparr>graph := addNode node (graph (record_layer st lp
                          (new_layer_info (caffe_name_to_ir_name (lp_name lp)) t am iim dl) dl))\<rparr>"
    using pool by (elim operator_stepE) simp
  from t have "t \<noteq> ''batch_norm''" by (auto simp: lt0_def split: if_splits)
  with emit obtain node where
    node: "caffe_node_to_ir_node t
             (new_layer_info (caffe_name_to_ir_name (lp_name lp)) t am iim dl) = Inr node"
    and st': "st' = (record_layer st lp
                      (new_layer_info (caffe_name_to_ir_name (lp_name lp)) t am iim dl) dl)
                    \<lparr>graph := addNode node (graph (record_layer st lp
                      (new_layer_info (caffe_name_to_ir_name (lp_name lp)) t am iim dl) dl))\<rparr>"
    by blast
  from calc pool have "pooling_dims lp iim (extractCaffeAttrInfo lp) = Inr (dl, am)"
    by (simp add: calculateTensorDims_def)
  from pooling_dims_input [OF this] obtain nm n c h w rest where
    iim: "iim = (nm, [n, c, h, w]) # rest" by blast
  from calc global_pooling_dims [OF pool glob, of nm n c h w rest]
  have am: "am = [(''strides'', ints [1, 1]),
              (''kernel_shape'', ints [w, h]),
              (''pads'', ints [0, 0, resolve_pool (pool_pad_w (pooling_param lp)) (pool_pad (pooling_param lp)), resolve_pool (pool_pad_h (pooling_param lp)) (pool_pad (pooling_param lp))]),
              (''dim_round_mode'', AStr ''ceil'')]"
    by (simp add: iim)
  have attr: "node_attr node =
             [(''strides'', IrInts [1, 1]),
              (''kernel_shape'', IrInts [w, h]),
              (''pads'', IrInts [0, 0, resolve_pool (pool_pad_w (pooling_param lp)) (pool_pad (pooling_param lp)), resolve_pool (pool_pad_h (pooling_param lp)) (pool_pad (pooling_param lp))]),
              (''dim_round_mode'', IrStr ''ceil'')]"
    using node
    by (auto simp: caffe_node_to_ir_node_def new_layer_info_def am caffe_attr_to_ir_attr_def
          ints_def Let_def)
  have decl: "map_of (extractCaffeAttrInfo lp) ''pads'' = Some (ints [resolve_pool (pool_pad_w (pooling_param lp)) (pool_pad (pooling_param lp)), resolve_pool (pool_pad_h (pooling_param lp)) (pool_pad (pooling_param lp)), resolve_pool (pool_pad_w (pooling_param lp)) (pool_pad (pooling_param lp)), resolve_pool (pool_pad_h (pooling_param lp)) (pool_pad (pooling_param lp))])"
    using pool by (simp add: extractCaffeAttrInfo_def Let_def)
  have shape: "calculateTensorDims lp ((nmi, [ni, ci, hi, wi]) # resti) (extractCaffeAttrInfo lp) =
             Inr (\<lparr>dl_weights = None, dl_bias = None, dl_output = [ni, ci, 1, 1]\<rparr>,
                  [(''strides'', ints [1, 1]),
                   (''kernel_shape'', ints [wi, hi]),
                   (''pads'', ints [0, 0, resolve_pool (pool_pad_w (pooling_param lp)) (pool_pad (pooling_param lp)), resolve_pool (pool_pad_h (pooling_param lp)) (pool_pad (pooling_param lp))]),
                   (''dim_round_mode'', AStr ''ceil'')])"
    by (rule global_pooling_dims [OF pool glob])
  have "\<exists>nm n c h w rest info node.
           inputOutputMap st' = inputOutputMap st @ [info] \<and>
           inputs info = (nm, [n, c, h, w]) # rest \<and>
           map_of (extractCaffeAttrInfo lp) ''pads'' = Some (ints [resolve_pool (pool_pad_w (pooling_param lp)) (pool_pad (pooling_param lp)), resolve_pool (pool_pad_h (pooling_param lp)) (pool_pad (pooling_param lp)), resolve_pool (pool_pad_w (pooling_param lp)) (pool_pad (pooling_param lp)), resolve_pool (pool_pad_h (pooling_param lp)) (pool_pad (pooling_param lp))]) \<and>
           map_of (attributes info) ''strides'' = Some (ints [1, 1]) \<and>
           map_of (attributes info) ''kernel_shape'' = Some (ints [w, h]) \<and>
           map_of (attributes info) ''pads'' = Some (ints [0, 0, resolve_pool (pool_pad_w (pooling_param lp)) (pool_pad (pooling_param lp)), resolve_pool (pool_pad_h (pooling_param lp)) (pool_pad (pooling_param lp))]) \<and>
           nodes (graph st') = nodes (graph st) @ [node] \<and>
           map_of (node_attr node) ''strides'' = Some (IrInts [1, 1]) \<and>
           map_of (node_attr node) ''kernel_shape'' = Some (IrInts [w, h]) \<and>
           map_of (node_attr node) ''pads'' = Some (IrInts [0, 0, resolve_pool (pool_pad_w (pooling_param lp)) (pool_pad (pooling_param lp)), resolve_pool (pool_pad_h (pooling_param lp)) (pool_pad (pooling_param lp))])"
    apply (rule exI [of _ nm], rule exI [of _ n], rule exI [of _ c], rule exI [of _ h],
           rule exI [of _ w], rule exI [of _ rest],
           rule exI [of _ "new_layer_info (caffe_name_to_ir_name (lp_name lp)) t am iim dl"],
           rule exI [of _ node])
    using decl
    apply (simp add: st' addNode_def attr)
    apply (simp add: new_layer_info_def iim am)
    done
  with shape show ?thesis by (rule conjI)
qed

theorem global_pooling_attributes_mutated_witness:
  "lp_type gpool = ''Pooling'' \<and> global_pooling (pooling_param gpool) \<and>
   node_step 2 None [(''data'', [1, 512, 7, 7])] (input_state [1, 512, 7, 7]) gpool
     = Inr gpool_stepped \<and>
   map_of (extractCaffeAttrInfo gpool) ''kernel_shape'' = Some (ints [0, 0]) \<and>
   calculateTensorDims gpool [(''data'', [1, 512, 7, 7])] (extractCaffeAttrInfo gpool) =
     Inr (\<lparr>dl_weights = None, dl_bias = None, dl_output = [1, 512, 1, 1]\<rparr>,
          [(''strides'', ints [1, 1]), (''kernel_shape'', ints [7, 7]),
           (''pads'', ints [0, 0, 0, 0]), (''dim_round_mode'', AStr ''ceil'')]) \<and>
   (\<exists>info node.
      inputOutputMap gpool_stepped = [info] \<and>
      map_of (attributes info) ''strides'' = Some (ints [1, 1]) \<and>
      map_of (attributes info) ''kernel_shape'' = Some (ints [7, 7]) \<and>
      map_of (attributes info) ''pads'' = Some (ints [0, 0, 0, 0]) \<and>
      nodes (graph gpool_stepped) = [node] \<and>
      map_of (node_attr node) ''strides'' = Some (IrInts [1, 1]) \<and>
      map_of (node_attr node) ''kernel_shape'' = Some (IrInts [7, 7]) \<and>
      map_of (node_attr node) ''pads'' = Some (IrInts [0, 0, 0, 0]))"
proof -
  have h: "lp_type gpool = ''Pooling''" "global_pooling (pooling_param gpool)"
    by (simp_all add: gpool_def default_layer_def)
  have s: "node_step 2 None [(''data'', [1, 512, 7, 7])] (input_state [1, 512, 7, 7]) gpool
             = Inr gpool_stepped"
    by (simp add: gpool_stepped_def eval_defs gpool_def ints_def)
  have i: "inputs (hd (inputOutputMap gpool_stepped)) = [(''data'', [1, 512, 7, 7])]"
    "length (inputOutputMap gpool_stepped) = 1"
    by (simp_all add: gpool_stepped_def eval_defs gpool_def ints_def)
  have d: "map_of (extractCaffeAttrInfo gpool) ''kernel_shape'' = Some (ints [0, 0])"
    "resolve_pool (pool_pad_w (pooling_param gpool)) (pool_pad (pooling_param gpool)) = 0"
    "resolve_pool (pool_pad_h (pooling_param gpool)) (pool_pad (pooling_param gpool)) = 0"
    "nodes (graph (input_state [1, 512, 7, 7])) = []"
    "inputOutputMap (input_state [1, 512, 7, 7]) = []"
    by (simp_all add: eval_defs gpool_def)
  note t = global_pooling_attributes_mutated
             [OF h s, where nmi = "''data''" and ni = 1 and ci = 512 and hi = 7 and wi = 7
                and resti = "[]"]
  from t [THEN conjunct1] t [THEN conjunct2] h s i d
  show ?thesis by auto
qed

end
